theory Spec2Isabelle
  imports Complex_Main "HOL-Library.Word" "HOL-Library.Log_Nat"
begin

unbundle bit_operations_syntax

section \<open>The C double\<close>

text \<open>
  termcalc computes on C \<^verbatim>\<open>double\<close> values. A double is modelled as an IEEE 754 binary64
  datum: a NaN, a signed infinity, or a signed finite magnitude (the sign is \<open>True\<close> for
  negative, so both zeros exist). Finite magnitudes are rationals; every operation rounds
  its exact result to the nearest binary64 value, ties to even, as the default rounding
  mode does.
\<close>

datatype double = NaN | Infty bool | Fin bool rat

definition pow2 :: "int \<Rightarrow> rat" where
  "pow2 t = (if 0 \<le> t then 2 ^ nat t else 1 / 2 ^ nat (- t))"

definition pow10 :: "int \<Rightarrow> rat" where
  "pow10 t = (if 0 \<le> t then 10 ^ nat t else 1 / 10 ^ nat (- t))"

text \<open>\<open>ilog2 q\<close> is the binary exponent of a positive rational: \<open>2^e \<le> q < 2^(e+1)\<close>.\<close>

definition ilog2 :: "rat \<Rightarrow> int" where
  "ilog2 q = (if 1 \<le> q then bitlen \<lfloor>q\<rfloor> - 1
              else let l = bitlen \<lfloor>1 / q\<rfloor> in if pow2 (1 - l) \<le> q then 1 - l else - l)"

definition round_half_even :: "rat \<Rightarrow> int" where
  "round_half_even x = (let f = \<lfloor>x\<rfloor>; d = x - of_int f in
     if d < 1 / 2 then f else if 1 / 2 < d then f + 1 else if even f then f else f + 1)"

text \<open>
  Rounding a positive magnitude to 53 significant bits; below \<open>2^-1022\<close> the spacing stays
  \<open>2^-1074\<close> (subnormal numbers).
\<close>

definition round_mag :: "rat \<Rightarrow> rat" where
  "round_mag m = (let t = max (ilog2 m) (- 1022) - 52
                  in of_int (round_half_even (m / pow2 t)) * pow2 t)"

definition make_double :: "bool \<Rightarrow> rat \<Rightarrow> double" where
  "make_double s m = (if m = 0 then Fin s 0 else let r = round_mag m in
      if 2 ^ 1024 \<le> r then Infty s else Fin s r)"

definition double_of_rat :: "rat \<Rightarrow> double" where
  "double_of_rat q = make_double (q < 0) \<bar>q\<bar>"

fun valof :: "double \<Rightarrow> rat" where
  "valof (Fin s m) = (if s then - m else m)"
| "valof _ = 0"

fun isnan :: "double \<Rightarrow> bool" where
  "isnan NaN = True"
| "isnan _ = False"

fun is_zero :: "double \<Rightarrow> bool" where
  "is_zero (Fin s m) = (m = 0)"
| "is_zero _ = False"

fun sign_bit :: "double \<Rightarrow> bool" where
  "sign_bit (Fin s m) = s"
| "sign_bit (Infty s) = s"
| "sign_bit NaN = False"

text \<open>The comparisons \<^verbatim>\<open>==\<close> and \<^verbatim>\<open><\<close>: false whenever an operand is a NaN; the zeros are equal.\<close>

fun deq :: "double \<Rightarrow> double \<Rightarrow> bool" where
  "deq NaN _ = False"
| "deq _ NaN = False"
| "deq (Infty s) (Infty s') = (s = s')"
| "deq (Fin s m) (Fin s' m') = (valof (Fin s m) = valof (Fin s' m'))"
| "deq _ _ = False"

fun dlt :: "double \<Rightarrow> double \<Rightarrow> bool" where
  "dlt NaN _ = False"
| "dlt _ NaN = False"
| "dlt (Infty s) (Infty s') = (s \<and> \<not> s')"
| "dlt (Infty s) (Fin _ _) = s"
| "dlt (Fin _ _) (Infty s') = (\<not> s')"
| "dlt (Fin s m) (Fin s' m') = (valof (Fin s m) < valof (Fin s' m'))"

subsection \<open>Arithmetic\<close>

fun dneg :: "double \<Rightarrow> double" where
  "dneg NaN = NaN"
| "dneg (Infty s) = Infty (\<not> s)"
| "dneg (Fin s m) = Fin (\<not> s) m"

fun dadd :: "double \<Rightarrow> double \<Rightarrow> double" where
  "dadd NaN _ = NaN"
| "dadd _ NaN = NaN"
| "dadd (Infty s) (Infty s') = (if s = s' then Infty s else NaN)"
| "dadd (Infty s) (Fin _ _) = Infty s"
| "dadd (Fin _ _) (Infty s') = Infty s'"
| "dadd (Fin s m) (Fin s' m') =
     (let v = valof (Fin s m) + valof (Fin s' m')
      in if v = 0 then Fin (s \<and> s') 0 else double_of_rat v)"

definition dsub :: "double \<Rightarrow> double \<Rightarrow> double" where
  "dsub x y = dadd x (dneg y)"

fun dmul :: "double \<Rightarrow> double \<Rightarrow> double" where
  "dmul NaN _ = NaN"
| "dmul _ NaN = NaN"
| "dmul (Infty s) (Infty s') = Infty (s \<noteq> s')"
| "dmul (Infty s) (Fin s' m') = (if m' = 0 then NaN else Infty (s \<noteq> s'))"
| "dmul (Fin s m) (Infty s') = (if m = 0 then NaN else Infty (s \<noteq> s'))"
| "dmul (Fin s m) (Fin s' m') = make_double (s \<noteq> s') (m * m')"

fun ddiv :: "double \<Rightarrow> double \<Rightarrow> double" where
  "ddiv NaN _ = NaN"
| "ddiv _ NaN = NaN"
| "ddiv (Infty s) (Infty s') = NaN"
| "ddiv (Infty s) (Fin s' m') = Infty (s \<noteq> s')"
| "ddiv (Fin s m) (Infty s') = Fin (s \<noteq> s') 0"
| "ddiv (Fin s m) (Fin s' m') =
     (if m' = 0 then (if m = 0 then NaN else Infty (s \<noteq> s'))
      else make_double (s \<noteq> s') (m / m'))"

text \<open>
  \<^verbatim>\<open>fmod(x, y)\<close>: the exact remainder \<open>x - n * y\<close> with \<open>n\<close> the quotient truncated towards
  zero; it has the sign of \<open>x\<close> and needs no rounding.
\<close>

fun fmod :: "double \<Rightarrow> double \<Rightarrow> double" where
  "fmod NaN _ = NaN"
| "fmod _ NaN = NaN"
| "fmod (Infty s) _ = NaN"
| "fmod (Fin s m) (Infty s') = Fin s m"
| "fmod (Fin s m) (Fin s' m') =
     (if m' = 0 then NaN else Fin s (m - of_int \<lfloor>m / m'\<rfloor> * m'))"

fun fabs :: "double \<Rightarrow> double" where
  "fabs NaN = NaN"
| "fabs (Infty s) = Infty False"
| "fabs (Fin s m) = Fin False m"

fun dfloor :: "double \<Rightarrow> double" where
  "dfloor (Fin s m) = (if s then Fin True (of_int \<lceil>m\<rceil>) else Fin False (of_int \<lfloor>m\<rfloor>))"
| "dfloor x = x"

fun dceil :: "double \<Rightarrow> double" where
  "dceil (Fin s m) = (if s then Fin True (of_int \<lfloor>m\<rfloor>) else Fin False (of_int \<lceil>m\<rceil>))"
| "dceil x = x"

text \<open>\<^verbatim>\<open>round\<close>: to the nearest integer, halfway cases away from zero.\<close>

fun dround :: "double \<Rightarrow> double" where
  "dround (Fin s m) = Fin s (of_int \<lfloor>m + 1 / 2\<rfloor>)"
| "dround x = x"

subsection \<open>The math library\<close>

text \<open>
  The C standard does not fix the results of the transcendental functions, so the math
  library is a parameter: \<open>M name args\<close> is what the function \<open>name\<close> of \<^verbatim>\<open>math.h\<close> returns.
  Every statement below holds for every library.
\<close>

type_synonym libm = "string \<Rightarrow> double list \<Rightarrow> double"

text \<open>
  \<^verbatim>\<open>fmax\<close> and \<^verbatim>\<open>fmin\<close> treat a NaN as missing data: the other operand is returned. For zeros
  of opposite sign C leaves the choice to the library: the result is the zero that has the
  sign of the library's answer.
\<close>

definition fmax :: "libm \<Rightarrow> double \<Rightarrow> double \<Rightarrow> double" where
  "fmax M x y =
     (if isnan y then x else if isnan x then y
      else if dlt x y then y else if dlt y x then x
      else if sign_bit x = sign_bit y then x
      else if sign_bit (M ''fmax'' [x, y]) = sign_bit x then x else y)"

definition fmin :: "libm \<Rightarrow> double \<Rightarrow> double \<Rightarrow> double" where
  "fmin M x y =
     (if isnan y then x else if isnan x then y
      else if dlt y x then y else if dlt x y then x
      else if sign_bit x = sign_bit y then x
      else if sign_bit (M ''fmin'' [x, y]) = sign_bit x then x else y)"

definition is_int :: "double \<Rightarrow> bool" where
  "is_int y = (case y of Fin s m \<Rightarrow> of_int \<lfloor>m\<rfloor> = m | _ \<Rightarrow> False)"

definition is_odd_int :: "double \<Rightarrow> bool" where
  "is_odd_int y = (case y of Fin s m \<Rightarrow> of_int \<lfloor>m\<rfloor> = m \<and> odd \<lfloor>m\<rfloor> | _ \<Rightarrow> False)"

text \<open>
  \<^verbatim>\<open>pow(x, y)\<close>. The special cases are those of Annex F (F.10.4.4) of the C standard; they
  come first, in particular \<^verbatim>\<open>pow(x, 0)\<close> and \<^verbatim>\<open>pow(1, y)\<close> are 1 even for a NaN operand. For
  finite operands with an integral exponent the exact power is a rational; when it is a
  binary64 value the library returns it (no rounding is involved). Every other result is
  the library's.
\<close>

definition exact_pow :: "rat \<Rightarrow> int \<Rightarrow> rat" where
  "exact_pow v k = (if 0 \<le> k then v ^ nat k else 1 / v ^ nat (- k))"

definition dpow :: "libm \<Rightarrow> double \<Rightarrow> double \<Rightarrow> double" where
  "dpow M x y =
    (if is_zero y then Fin False 1
     else if x = Fin False 1 then Fin False 1
     else if isnan x \<or> isnan y then NaN
     else case (x, y) of
       (Fin s m, Infty s') \<Rightarrow>
          if m = 1 then Fin False 1
          else if (m < 1) = s' then Infty False else Fin False 0
     | (Infty s, Infty s') \<Rightarrow> if s' then Fin False 0 else Infty False
     | (Infty s, Fin s' m') \<Rightarrow>
          if s' then Fin (s \<and> is_odd_int y) 0 else Infty (s \<and> is_odd_int y)
     | (Fin s m, Fin s' m') \<Rightarrow>
          if m = 0 then
            (if s' then Infty (s \<and> is_odd_int y) else Fin (s \<and> is_odd_int y) 0)
          else if is_int y then
            (let v = exact_pow (valof x) (if s' then - \<lfloor>m'\<rfloor> else \<lfloor>m'\<rfloor>)
             in if double_of_rat v = Fin (v < 0) \<bar>v\<bar> then Fin (v < 0) \<bar>v\<bar> else M ''pow'' [x, y])
          else if s then NaN
          else M ''pow'' [x, y]
     | _ \<Rightarrow> NaN)"

subsection \<open>Conversions between double and the integer types\<close>

text \<open>
  Converting a double to an integer type discards the fraction. When the integral part
  does not fit the target type (and for NaN and the infinities) the C standard leaves the
  behaviour undefined (6.3.1.4); the model reports that as a fault instead of inventing a
  result. The same holds for a shift by a negative count or by the width or more (6.5.7),
  and for \<^verbatim>\<open>__builtin_clzll(0)\<close> and \<^verbatim>\<open>__builtin_ctzll(0)\<close>.
\<close>

datatype fault = Undefined_Conversion | Undefined_Shift | Undefined_Builtin | Out_Of_Fuel

definition trunc_int :: "double \<Rightarrow> int option" where
  "trunc_int x = (case x of Fin s m \<Rightarrow> Some (if s then - \<lfloor>m\<rfloor> else \<lfloor>m\<rfloor>) | _ \<Rightarrow> None)"

definition to_uint64 :: "double \<Rightarrow> fault + 64 word" where
  "to_uint64 x = (case trunc_int x of
      Some i \<Rightarrow> if 0 \<le> i \<and> i < 2 ^ 64 then Inr (word_of_int i) else Inl Undefined_Conversion
    | None \<Rightarrow> Inl Undefined_Conversion)"

definition to_uint32 :: "double \<Rightarrow> fault + 32 word" where
  "to_uint32 x = (case trunc_int x of
      Some i \<Rightarrow> if 0 \<le> i \<and> i < 2 ^ 32 then Inr (word_of_int i) else Inl Undefined_Conversion
    | None \<Rightarrow> Inl Undefined_Conversion)"

definition to_uint16 :: "double \<Rightarrow> fault + 16 word" where
  "to_uint16 x = (case trunc_int x of
      Some i \<Rightarrow> if 0 \<le> i \<and> i < 2 ^ 16 then Inr (word_of_int i) else Inl Undefined_Conversion
    | None \<Rightarrow> Inl Undefined_Conversion)"

definition to_uint8 :: "double \<Rightarrow> fault + 8 word" where
  "to_uint8 x = (case trunc_int x of
      Some i \<Rightarrow> if 0 \<le> i \<and> i < 2 ^ 8 then Inr (word_of_int i) else Inl Undefined_Conversion
    | None \<Rightarrow> Inl Undefined_Conversion)"

text \<open>\<^verbatim>\<open>(int)x\<close>, with the 32-bit \<^verbatim>\<open>int\<close> of the platforms termcalc builds on.\<close>

definition to_int :: "double \<Rightarrow> fault + int" where
  "to_int x = (case trunc_int x of
      Some i \<Rightarrow> if - (2 ^ 31) \<le> i \<and> i < 2 ^ 31 then Inr i else Inl Undefined_Conversion
    | None \<Rightarrow> Inl Undefined_Conversion)"

text \<open>An unsigned integer always converts: to the nearest double.\<close>

definition of_uint64 :: "64 word \<Rightarrow> double" where
  "of_uint64 w = make_double False (of_nat (unat w))"

definition double_of_nat :: "nat \<Rightarrow> double" where
  "double_of_nat n = make_double False (of_nat n)"

text \<open>\<^verbatim>\<open>l << r\<close> and \<^verbatim>\<open>l >> r\<close> on \<^verbatim>\<open>uint64_t l\<close> and \<^verbatim>\<open>int r\<close>.\<close>

definition shift_left :: "64 word \<Rightarrow> int \<Rightarrow> fault + 64 word" where
  "shift_left l r = (if 0 \<le> r \<and> r < 64 then Inr (push_bit (nat r) l) else Inl Undefined_Shift)"

definition shift_right :: "64 word \<Rightarrow> int \<Rightarrow> fault + 64 word" where
  "shift_right l r = (if 0 \<le> r \<and> r < 64 then Inr (drop_bit (nat r) l) else Inl Undefined_Shift)"


section \<open>Characters and the C library's parsers\<close>

text \<open>
  A C string ends at its first NUL, so the cursor is the list of characters left before
  it; reading at the end of the list yields NUL. The character classes are those of the
  "C" locale.
\<close>

definition NUL :: char where
  "NUL = CHR 0x00"

fun peek :: "string \<Rightarrow> char" where
  "peek [] = NUL"
| "peek (c # s) = c"

definition cstring :: "string \<Rightarrow> string" where
  "cstring s = takeWhile (\<lambda>c. c \<noteq> NUL) s"

definition code :: "char \<Rightarrow> nat" where
  "code c = of_char c"

definition isspace :: "char \<Rightarrow> bool" where
  "isspace c = (code c = 32 \<or> (9 \<le> code c \<and> code c \<le> 13))"

definition isdigit :: "char \<Rightarrow> bool" where
  "isdigit c = (48 \<le> code c \<and> code c \<le> 57)"

definition isalpha :: "char \<Rightarrow> bool" where
  "isalpha c = ((65 \<le> code c \<and> code c \<le> 90) \<or> (97 \<le> code c \<and> code c \<le> 122))"

definition isalnum :: "char \<Rightarrow> bool" where
  "isalnum c = (isalpha c \<or> isdigit c)"

text \<open>The value of a digit in bases up to 36, as \<^verbatim>\<open>strtoull\<close> reads it.\<close>

definition digit_value :: "char \<Rightarrow> nat option" where
  "digit_value c =
     (if isdigit c then Some (code c - 48)
      else if 97 \<le> code c \<and> code c \<le> 122 then Some (code c - 87)
      else if 65 \<le> code c \<and> code c \<le> 90 then Some (code c - 55)
      else None)"

definition is_digit_in :: "nat \<Rightarrow> char \<Rightarrow> bool" where
  "is_digit_in base c = (case digit_value c of Some d \<Rightarrow> d < base | None \<Rightarrow> False)"

text \<open>The number a digit string denotes, most significant digit first.\<close>

fun digits_value :: "nat \<Rightarrow> nat \<Rightarrow> string \<Rightarrow> nat" where
  "digits_value base acc [] = acc"
| "digits_value base acc (c # s) = digits_value base (acc * base + (case digit_value c of Some d \<Rightarrow> d | None \<Rightarrow> 0)) s"

text \<open>
  \<^verbatim>\<open>strtoull(s, &end, base)\<close> for base 8 or 16: white space, an optional sign, for base 16 an
  optional \<^verbatim>\<open>0x\<close> that digits follow, then the longest run of digits. Without a digit nothing
  is converted (\<open>None\<close>: \<^verbatim>\<open>end == s\<close>). A value beyond \<^verbatim>\<open>ULLONG_MAX\<close> yields \<^verbatim>\<open>ULLONG_MAX\<close>;
  otherwise a minus sign negates the value in the unsigned type.
\<close>

definition strtoull :: "string \<Rightarrow> nat \<Rightarrow> (64 word \<times> string) option" where
  "strtoull s base =
     (let s1 = dropWhile isspace s;
          neg = (peek s1 = CHR ''-'');
          s2 = (if peek s1 = CHR ''-'' \<or> peek s1 = CHR ''+'' then tl s1 else s1);
          s3 = (if base = 16 \<and> peek s2 = CHR ''0''
                   \<and> (peek (tl s2) = CHR ''x'' \<or> peek (tl s2) = CHR ''X'')
                   \<and> is_digit_in 16 (peek (drop 2 s2))
                then drop 2 s2 else s2);
          ds = takeWhile (is_digit_in base) s3;
          n = digits_value base 0 ds
      in if ds = [] then None
         else Some (if 2 ^ 64 \<le> n then - 1 else if neg then - word_of_nat n else word_of_nat n,
                    dropWhile (is_digit_in base) s3))"

text \<open>
  \<^verbatim>\<open>strtod(s, &end)\<close> on the inputs \<^verbatim>\<open>parse_number\<close> passes to it: they begin with a digit, or
  with a point and a digit, and never with \<^verbatim>\<open>0x\<close>. So the text is a decimal floating
  constant: digits with an optional point, then optionally \<^verbatim>\<open>e\<close> or \<^verbatim>\<open>E\<close>, an optional sign
  and at least one digit (an \<^verbatim>\<open>e\<close> that no digit follows is not part of the number). The
  result is the decimal value, correctly rounded.
\<close>

definition strtod_exponent :: "string \<Rightarrow> int \<times> string" where
  "strtod_exponent s =
     (if peek s = CHR ''e'' \<or> peek s = CHR ''E'' then
        (let s1 = tl s;
             neg = (peek s1 = CHR ''-'');
             s2 = (if peek s1 = CHR ''-'' \<or> peek s1 = CHR ''+'' then tl s1 else s1);
             ds = takeWhile isdigit s2
         in if ds = [] then (0, s)
            else (if neg then - int (digits_value 10 0 ds) else int (digits_value 10 0 ds),
                  dropWhile isdigit s2))
      else (0, s))"

definition strtod :: "string \<Rightarrow> double \<times> string" where
  "strtod s =
     (let ip = takeWhile isdigit s;
          s1 = dropWhile isdigit s;
          fp = (if peek s1 = CHR ''.'' then takeWhile isdigit (tl s1) else []);
          s2 = (if peek s1 = CHR ''.'' then dropWhile isdigit (tl s1) else s1);
          (ex, s3) = strtod_exponent s2
      in (double_of_rat (of_nat (digits_value 10 0 (ip @ fp)) * pow10 (ex - int (length fp))), s3))"

section \<open>Configuration and global state\<close>

definition MAX_VARS :: nat where
  "MAX_VARS = 64"

definition MAX_NAME :: nat where
  "MAX_NAME = 32"

datatype OutputFormat = FMT_DEC | FMT_HEX | FMT_BIN | FMT_OCT

text \<open>
  The array \<^verbatim>\<open>vars[0 .. var_count - 1]\<close> of name and value pairs, in insertion order.
\<close>

type_synonym Variable = "string \<times> double"

section \<open>Tokenizer\<close>

text \<open>
  The C \<^verbatim>\<open>Token\<close> is a struct of a type tag and the fields \<^verbatim>\<open>num\<close>, \<^verbatim>\<open>id\<close> and \<^verbatim>\<open>op\<close>; the
  code reads a field only under the matching tag, so a token is a tagged union.
\<close>

datatype Token =
  TOK_NUM double | TOK_ID string | TOK_OP char | TOK_LPAREN | TOK_RPAREN | TOK_END | TOK_ERR

text \<open>
  The state the parse functions work on: the \<^verbatim>\<open>Parser\<close> (cursor \<open>pos\<close> and current token
  \<open>cur\<close>) together with the two globals they write, the output format \<^verbatim>\<open>g_output_fmt\<close> and
  the diagnostics printed to \<^verbatim>\<open>stderr\<close> (one entry per \<^verbatim>\<open>fprintf\<close>). The variable table is
  only read while parsing (through \<^verbatim>\<open>get_var\<close>), so the parse functions take it as an
  argument.
\<close>

record Output =
  g_output_fmt :: OutputFormat
  stderr :: "string list"

record Parser = Output +
  pos :: string
  cur :: Token

definition skip_ws :: "string \<Rightarrow> string" where
  "skip_ws s = dropWhile isspace s"

text \<open>The binary digits after \<^verbatim>\<open>0b\<close>: \<^verbatim>\<open>val = (val << 1) | (*p->pos++ - '0')\<close>.\<close>

fun binary_digits :: "64 word \<Rightarrow> string \<Rightarrow> 64 word \<times> string" where
  "binary_digits val [] = (val, [])"
| "binary_digits val (c # s) =
     (if c = CHR ''0'' \<or> c = CHR ''1''
      then binary_digits (push_bit 1 val OR word_of_nat (code c - 48)) s
      else (val, c # s))"

text \<open>The last block of \<^verbatim>\<open>parse_number\<close>: the regular decimal or scientific number.\<close>

definition parse_number_decimal :: "string \<Rightarrow> (double \<times> string) option" where
  "parse_number_decimal s =
     (if isdigit (peek s) \<or> (peek s = CHR ''.'' \<and> isdigit (peek (tl s)))
      then Some (strtod s) else None)"

text \<open>
  \<^verbatim>\<open>parse_number\<close> returns \<open>Some (num, pos')\<close> where the C function stores the token value,
  moves the cursor and returns true, and \<open>None\<close> where it returns false with the cursor
  where it was.
\<close>

definition parse_number :: "string \<Rightarrow> (double \<times> string) option" where
  "parse_number s =
     (if peek s = CHR ''0'' \<and> peek (tl s) \<noteq> NUL then
        (let prefix = peek (tl s) in
         if prefix = CHR ''x'' \<or> prefix = CHR ''X'' then
           (case strtoull (drop 2 s) 16 of
              None \<Rightarrow> None
            | Some (val, end) \<Rightarrow> Some (of_uint64 val, end))
         else if prefix = CHR ''b'' \<or> prefix = CHR ''B'' then
           (case binary_digits 0 (drop 2 s) of (val, end) \<Rightarrow> Some (of_uint64 val, end))
         else if prefix = CHR ''o'' \<or> prefix = CHR ''O'' then
           (case strtoull (drop 2 s) 8 of
              None \<Rightarrow> None
            | Some (val, end) \<Rightarrow> Some (of_uint64 val, end))
         else parse_number_decimal s)
      else parse_number_decimal s)"

definition is_ident_char :: "char \<Rightarrow> bool" where
  "is_ident_char c = (isalnum c \<or> c = CHR ''_'')"

text \<open>The operator switch of \<^verbatim>\<open>next_token\<close>, on the character \<open>c\<close> just consumed.\<close>

definition operator_token :: "char \<Rightarrow> string \<Rightarrow> Token \<times> string" where
  "operator_token c s =
     (if c = CHR ''('' then (TOK_LPAREN, s)
      else if c = CHR '')'' then (TOK_RPAREN, s)
      else if c \<in> set ''+-/%=&|~,'' then (TOK_OP c, s)
      else if c = CHR ''<'' then
        (if peek s = CHR ''<'' then (TOK_OP (CHR ''L''), tl s) else (TOK_ERR, s))
      else if c = CHR ''>'' then
        (if peek s = CHR ''>'' then (TOK_OP (CHR ''R''), tl s) else (TOK_ERR, s))
      else if c = CHR ''*'' then
        (if peek s = CHR ''*'' then (TOK_OP (CHR ''^''), tl s) else (TOK_OP (CHR ''*''), s))
      else if c = CHR ''^'' then (TOK_OP (CHR ''^''), s)
      else (TOK_ERR, s))"

definition next_token :: "Parser \<Rightarrow> Parser" where
  "next_token p =
     (let s = skip_ws (pos p) in
      if peek s = NUL then p\<lparr>pos := s, cur := TOK_END\<rparr>
      else case parse_number s of
        Some (num, end) \<Rightarrow> p\<lparr>pos := end, cur := TOK_NUM num\<rparr>
      | None \<Rightarrow>
          if isalpha (peek s) \<or> peek s = CHR ''_'' then
            (let name = take (MAX_NAME - 1) (takeWhile is_ident_char s)
             in p\<lparr>pos := drop (length name) s, cur := TOK_ID name\<rparr>)
          else case operator_token (peek s) (tl s) of
            (tok, rest) \<Rightarrow> p\<lparr>pos := rest, cur := tok\<rparr>)"


section \<open>Variable storage\<close>

definition PI :: double where
  "PI = double_of_rat (314159265358979323846 / 10 ^ 20)"

definition E :: double where
  "E = double_of_rat (271828182845904523536 / 10 ^ 20)"

definition KiB :: double where
  "KiB = Fin False 1024"

definition MiB :: double where
  "MiB = dmul (Fin False 1024) (Fin False 1024)"

definition GiB :: double where
  "GiB = dmul (dmul (Fin False 1024) (Fin False 1024)) (Fin False 1024)"

definition TiB :: double where
  "TiB = dmul (dmul (dmul (Fin False 1024) (Fin False 1024)) (Fin False 1024)) (Fin False 1024)"

definition KB :: double where
  "KB = Fin False 1000"

definition MB :: double where
  "MB = Fin False 1000000"

definition GB :: double where
  "GB = Fin False 1000000000"

definition TB :: double where
  "TB = Fin False 1000000000000"

definition newline :: char where
  "newline = CHR 0x0A"

text \<open>The search loop of \<^verbatim>\<open>get_var\<close>: the value of the first entry named \<open>name\<close>.\<close>

fun find_var :: "Variable list \<Rightarrow> string \<Rightarrow> double option" where
  "find_var [] name = None"
| "find_var ((n, v) # vars) name = (if n = name then Some v else find_var vars name)"

text \<open>\<^verbatim>\<open>get_var\<close> returns the value and what it printed to \<^verbatim>\<open>stderr\<close>.\<close>

definition get_var :: "Variable list \<Rightarrow> string \<Rightarrow> double \<times> string list" where
  "get_var vars name =
     (case find_var vars name of
        Some v \<Rightarrow> (v, [])
      | None \<Rightarrow>
          if name = ''pi'' \<or> name = ''PI'' then (PI, [])
          else if name = ''e'' \<or> name = ''E'' then (E, [])
          else if name = ''ans'' then (if length vars > 0 then snd (hd vars) else Fin False 0, [])
          else if name = ''KiB'' \<or> name = ''kib'' then (KiB, [])
          else if name = ''MiB'' \<or> name = ''mib'' then (MiB, [])
          else if name = ''GiB'' \<or> name = ''gib'' then (GiB, [])
          else if name = ''TiB'' \<or> name = ''tib'' then (TiB, [])
          else if name = ''KB'' \<or> name = ''kb'' then (KB, [])
          else if name = ''MB'' \<or> name = ''mb'' then (MB, [])
          else if name = ''GB'' \<or> name = ''gb'' then (GB, [])
          else if name = ''TB'' \<or> name = ''tb'' then (TB, [])
          else (NaN, [''undefined: '' @ name @ [newline]]))"

text \<open>
  The update loop of \<^verbatim>\<open>set_var\<close>: \<open>Some\<close> of the table with the first entry named \<open>name\<close>
  overwritten, \<open>None\<close> when no entry has that name.
\<close>

fun update_var :: "Variable list \<Rightarrow> string \<Rightarrow> double \<Rightarrow> Variable list option" where
  "update_var [] name value = None"
| "update_var ((n, v) # vars) name value =
     (if n = name then Some ((n, value) # vars)
      else map_option (\<lambda>vars'. (n, v) # vars') (update_var vars name value))"

text \<open>
  A new entry is appended while there is room; \<^verbatim>\<open>strncpy\<close> stores at most \<^verbatim>\<open>MAX_NAME - 1\<close>
  characters of the name. A full table drops the binding silently.
\<close>

definition set_var :: "Variable list \<Rightarrow> string \<Rightarrow> double \<Rightarrow> Variable list" where
  "set_var vars name value =
     (case update_var vars name value of
        Some vars' \<Rightarrow> vars'
      | None \<Rightarrow>
          if length vars < MAX_VARS then vars @ [(take (MAX_NAME - 1) name, value)]
          else vars)"

section \<open>Built-in functions\<close>

text \<open>A binary operation on the \<^verbatim>\<open>uint64_t\<close> conversions of two doubles.\<close>

definition on_uint64 :: "(64 word \<Rightarrow> 64 word \<Rightarrow> fault + 64 word) \<Rightarrow> double \<Rightarrow> double \<Rightarrow> fault + double" where
  "on_uint64 f a b =
     (case to_uint64 a of Inl e \<Rightarrow> Inl e | Inr x \<Rightarrow>
      case to_uint64 b of Inl e \<Rightarrow> Inl e | Inr y \<Rightarrow>
      case f x y of Inl e \<Rightarrow> Inl e | Inr z \<Rightarrow> Inr (of_uint64 z))"

text \<open>\<^verbatim>\<open>(double)((uint64_t)left << (int)right)\<close> and the same with \<^verbatim>\<open>>>\<close>.\<close>

definition shift_op :: "bool \<Rightarrow> double \<Rightarrow> double \<Rightarrow> fault + double" where
  "shift_op is_left a b =
     (case to_uint64 a of Inl e \<Rightarrow> Inl e | Inr l \<Rightarrow>
      case to_int b of Inl e \<Rightarrow> Inl e | Inr r \<Rightarrow>
      case (if is_left then shift_left l r else shift_right l r) of
        Inl e \<Rightarrow> Inl e | Inr z \<Rightarrow> Inr (of_uint64 z))"

definition call_func2 :: "libm \<Rightarrow> string \<Rightarrow> double \<Rightarrow> double \<Rightarrow> fault + double" where
  "call_func2 M name arg1 arg2 =
     (if name = ''bxor'' then on_uint64 (\<lambda>x y. Inr (x XOR y)) arg1 arg2
      else if name = ''band'' then on_uint64 (\<lambda>x y. Inr (x AND y)) arg1 arg2
      else if name = ''bor'' then on_uint64 (\<lambda>x y. Inr (x OR y)) arg1 arg2
      else if name = ''shl'' then shift_op True arg1 arg2
      else if name = ''shr'' then shift_op False arg1 arg2
      else if name = ''pow'' then Inr (dpow M arg1 arg2)
      else if name = ''mod'' then Inr (fmod arg1 arg2)
      else if name = ''atan2'' then Inr (M ''atan2'' [arg1, arg2])
      else if name = ''max'' then Inr (fmax M arg1 arg2)
      else if name = ''min'' then Inr (fmin M arg1 arg2)
      else Inr NaN)"

definition popcount :: "64 word \<Rightarrow> nat" where
  "popcount w = length (filter (bit w) [0..<64])"

definition clz :: "64 word \<Rightarrow> nat" where
  "clz w = length (takeWhile (\<lambda>i. \<not> bit w i) (rev [0..<64]))"

definition ctz :: "64 word \<Rightarrow> nat" where
  "ctz w = length (takeWhile (\<lambda>i. \<not> bit w i) [0..<64])"

text \<open>The names \<^verbatim>\<open>call_func\<close> passes straight to the math library.\<close>

definition libm_names :: "string list" where
  "libm_names = [''sin'', ''cos'', ''tan'', ''asin'', ''acos'', ''atan'', ''sinh'', ''cosh'',
     ''tanh'', ''exp'', ''log'', ''log10'', ''log2'', ''sqrt'', ''cbrt'']"

text \<open>
  \<^verbatim>\<open>call_func\<close> writes the output format (the selectors) and \<^verbatim>\<open>stderr\<close> (an unknown name),
  so it works on the state.
\<close>

definition call_func :: "libm \<Rightarrow> string \<Rightarrow> double \<Rightarrow> Parser \<Rightarrow> fault + double \<times> Parser" where
  "call_func M name arg p =
     (if name \<in> set libm_names then Inr (M name [arg], p)
      else if name = ''abs'' then Inr (fabs arg, p)
      else if name = ''floor'' then Inr (dfloor arg, p)
      else if name = ''ceil'' then Inr (dceil arg, p)
      else if name = ''round'' then Inr (dround arg, p)
      else if name = ''ln'' then Inr (M ''log'' [arg], p)
      else if name = ''bnot'' then
        (case to_uint64 arg of Inl e \<Rightarrow> Inl e | Inr w \<Rightarrow> Inr (of_uint64 (NOT w), p))
      else if name = ''not8'' then
        (case to_uint8 arg of Inl e \<Rightarrow> Inl e | Inr w \<Rightarrow> Inr (double_of_nat (unat (NOT w)), p))
      else if name = ''not16'' then
        (case to_uint16 arg of Inl e \<Rightarrow> Inl e | Inr w \<Rightarrow> Inr (double_of_nat (unat (NOT w)), p))
      else if name = ''not32'' then
        (case to_uint32 arg of Inl e \<Rightarrow> Inl e | Inr w \<Rightarrow> Inr (double_of_nat (unat (NOT w)), p))
      else if name = ''hex'' then Inr (arg, p\<lparr>g_output_fmt := FMT_HEX\<rparr>)
      else if name = ''bin'' then Inr (arg, p\<lparr>g_output_fmt := FMT_BIN\<rparr>)
      else if name = ''oct'' then Inr (arg, p\<lparr>g_output_fmt := FMT_OCT\<rparr>)
      else if name = ''dec'' then Inr (arg, p\<lparr>g_output_fmt := FMT_DEC\<rparr>)
      else if name = ''toKiB'' \<or> name = ''tokib'' then Inr (ddiv arg KiB, p)
      else if name = ''toMiB'' \<or> name = ''tomib'' then Inr (ddiv arg MiB, p)
      else if name = ''toGiB'' \<or> name = ''togib'' then Inr (ddiv arg GiB, p)
      else if name = ''toTiB'' \<or> name = ''totib'' then Inr (ddiv arg TiB, p)
      else if name = ''toKB'' \<or> name = ''tokb'' then Inr (ddiv arg KB, p)
      else if name = ''toMB'' \<or> name = ''tomb'' then Inr (ddiv arg MB, p)
      else if name = ''toGB'' \<or> name = ''togb'' then Inr (ddiv arg GB, p)
      else if name = ''toTB'' \<or> name = ''totb'' then Inr (ddiv arg TB, p)
      else if name = ''popcount'' then
        (case to_uint64 arg of Inl e \<Rightarrow> Inl e | Inr w \<Rightarrow> Inr (double_of_nat (popcount w), p))
      else if name = ''clz'' then
        (if deq arg (Fin False 0) then Inr (Fin False 64, p)
         else case to_uint64 arg of Inl e \<Rightarrow> Inl e | Inr w \<Rightarrow>
           if w = 0 then Inl Undefined_Builtin else Inr (double_of_nat (clz w), p))
      else if name = ''ctz'' then
        (if deq arg (Fin False 0) then Inr (Fin False 64, p)
         else case to_uint64 arg of Inl e \<Rightarrow> Inl e | Inr w \<Rightarrow>
           if w = 0 then Inl Undefined_Builtin else Inr (double_of_nat (ctz w), p))
      else Inr (NaN, p\<lparr>stderr := stderr p @ [''unknown function: '' @ name @ [newline]]\<rparr>))"

section \<open>Recursive descent parser\<close>

text \<open>
  The parse functions call each other recursively, and the recursion ends because every
  cycle consumes input. The model bounds the depth of calls instead: \<open>parse M vars n f p\<close>
  runs the C function named by \<open>f\<close> on the state \<open>p\<close> with \<open>n\<close> nested calls left, and
  answers \<open>Out_Of_Fuel\<close> at 0. Each \<^verbatim>\<open>while\<close> loop is an entry of its own (\<open>_Loop\<close>) that
  carries the loop variable \<open>left\<close>; one more iteration counts as one more call. A result is
  \<open>Inr (value, state)\<close>, or \<open>Inl\<close> of a fault.
\<close>

definition syntax_error :: "Parser \<Rightarrow> fault + double \<times> Parser" where
  "syntax_error p = Inr (NaN, p\<lparr>stderr := stderr p @ [''syntax error'' @ [newline]]\<rparr>)"

definition skip_rparen :: "Parser \<Rightarrow> Parser" where
  "skip_rparen p = (if cur p = TOK_RPAREN then next_token p else p)"

definition term_op :: "char \<Rightarrow> double \<Rightarrow> double \<Rightarrow> double" where
  "term_op op left right =
     (if op = CHR ''*'' then dmul left right
      else if op = CHR ''/'' then ddiv left right
      else if op = CHR ''%'' then fmod left right
      else left)"

datatype production =
  Primary | Power | Term | Term_Loop double | Additive | Additive_Loop double
  | Shift | Shift_Loop double | Bitand | Bitand_Loop double | Bitor | Bitor_Loop double | Expr

fun parse :: "libm \<Rightarrow> Variable list \<Rightarrow> nat \<Rightarrow> production \<Rightarrow> Parser \<Rightarrow> fault + double \<times> Parser" where
  "parse M vars 0 f p = Inl Out_Of_Fuel"
| "parse M vars (Suc n) Primary p =
     (case cur p of
        TOK_OP op \<Rightarrow>
          if op = CHR ''-'' \<or> op = CHR ''+'' then
            (case parse M vars n Primary (next_token p) of
               Inl e \<Rightarrow> Inl e
             | Inr (val, p') \<Rightarrow> Inr (if op = CHR ''-'' then dneg val else val, p'))
          else if op = CHR ''~'' then
            (case parse M vars n Primary (next_token p) of
               Inl e \<Rightarrow> Inl e
             | Inr (val, p') \<Rightarrow>
                 (case to_uint64 val of Inl e \<Rightarrow> Inl e | Inr w \<Rightarrow> Inr (of_uint64 (NOT w), p')))
          else syntax_error p
      | TOK_LPAREN \<Rightarrow>
          (case parse M vars n Expr (next_token p) of
             Inl e \<Rightarrow> Inl e
           | Inr (val, p') \<Rightarrow> Inr (val, skip_rparen p'))
      | TOK_NUM val \<Rightarrow> Inr (val, next_token p)
      | TOK_ID name \<Rightarrow>
          (let p1 = next_token p in
           if cur p1 = TOK_LPAREN then
             (case parse M vars n Expr (next_token p1) of
                Inl e \<Rightarrow> Inl e
              | Inr (arg1, p2) \<Rightarrow>
                  if cur p2 = TOK_OP (CHR '','') then
                    (case parse M vars n Expr (next_token p2) of
                       Inl e \<Rightarrow> Inl e
                     | Inr (arg2, p3) \<Rightarrow>
                         (case call_func2 M name arg1 arg2 of
                            Inl e \<Rightarrow> Inl e
                          | Inr v \<Rightarrow> Inr (v, skip_rparen p3)))
                  else call_func M name arg1 (skip_rparen p2))
           else (case get_var vars name of
                   (v, msgs) \<Rightarrow> Inr (v, p1\<lparr>stderr := stderr p1 @ msgs\<rparr>)))
      | _ \<Rightarrow> syntax_error p)"
| "parse M vars (Suc n) Power p =
     (case parse M vars n Primary p of
        Inl e \<Rightarrow> Inl e
      | Inr (left, p1) \<Rightarrow>
          if cur p1 = TOK_OP (CHR ''^'') then
            (case parse M vars n Power (next_token p1) of
               Inl e \<Rightarrow> Inl e
             | Inr (right, p2) \<Rightarrow> Inr (dpow M left right, p2))
          else Inr (left, p1))"
| "parse M vars (Suc n) Term p =
     (case parse M vars n Power p of
        Inl e \<Rightarrow> Inl e
      | Inr (left, p1) \<Rightarrow> parse M vars n (Term_Loop left) p1)"
| "parse M vars (Suc n) (Term_Loop left) p =
     (case cur p of
        TOK_OP op \<Rightarrow>
          if op = CHR ''*'' \<or> op = CHR ''/'' \<or> op = CHR ''%'' then
            (case parse M vars n Power (next_token p) of
               Inl e \<Rightarrow> Inl e
             | Inr (right, p1) \<Rightarrow> parse M vars n (Term_Loop (term_op op left right)) p1)
          else Inr (left, p)
      | _ \<Rightarrow> Inr (left, p))"
| "parse M vars (Suc n) Additive p =
     (case parse M vars n Term p of
        Inl e \<Rightarrow> Inl e
      | Inr (left, p1) \<Rightarrow> parse M vars n (Additive_Loop left) p1)"
| "parse M vars (Suc n) (Additive_Loop left) p =
     (case cur p of
        TOK_OP op \<Rightarrow>
          if op = CHR ''+'' \<or> op = CHR ''-'' then
            (case parse M vars n Term (next_token p) of
               Inl e \<Rightarrow> Inl e
             | Inr (right, p1) \<Rightarrow>
                 parse M vars n
                   (Additive_Loop (if op = CHR ''+'' then dadd left right else dsub left right)) p1)
          else Inr (left, p)
      | _ \<Rightarrow> Inr (left, p))"
| "parse M vars (Suc n) Shift p =
     (case parse M vars n Additive p of
        Inl e \<Rightarrow> Inl e
      | Inr (left, p1) \<Rightarrow> parse M vars n (Shift_Loop left) p1)"
| "parse M vars (Suc n) (Shift_Loop left) p =
     (case cur p of
        TOK_OP op \<Rightarrow>
          if op = CHR ''L'' \<or> op = CHR ''R'' then
            (case parse M vars n Additive (next_token p) of
               Inl e \<Rightarrow> Inl e
             | Inr (right, p1) \<Rightarrow>
                 (case shift_op (op = CHR ''L'') left right of
                    Inl e \<Rightarrow> Inl e
                  | Inr v \<Rightarrow> parse M vars n (Shift_Loop v) p1))
          else Inr (left, p)
      | _ \<Rightarrow> Inr (left, p))"
| "parse M vars (Suc n) Bitand p =
     (case parse M vars n Shift p of
        Inl e \<Rightarrow> Inl e
      | Inr (left, p1) \<Rightarrow> parse M vars n (Bitand_Loop left) p1)"
| "parse M vars (Suc n) (Bitand_Loop left) p =
     (if cur p = TOK_OP (CHR ''&'') then
        (case parse M vars n Shift (next_token p) of
           Inl e \<Rightarrow> Inl e
         | Inr (right, p1) \<Rightarrow>
             (case on_uint64 (\<lambda>x y. Inr (x AND y)) left right of
                Inl e \<Rightarrow> Inl e
              | Inr v \<Rightarrow> parse M vars n (Bitand_Loop v) p1))
      else Inr (left, p))"
| "parse M vars (Suc n) Bitor p =
     (case parse M vars n Bitand p of
        Inl e \<Rightarrow> Inl e
      | Inr (left, p1) \<Rightarrow> parse M vars n (Bitor_Loop left) p1)"
| "parse M vars (Suc n) (Bitor_Loop left) p =
     (if cur p = TOK_OP (CHR ''|'') then
        (case parse M vars n Bitand (next_token p) of
           Inl e \<Rightarrow> Inl e
         | Inr (right, p1) \<Rightarrow>
             (case on_uint64 (\<lambda>x y. Inr (x OR y)) left right of
                Inl e \<Rightarrow> Inl e
              | Inr v \<Rightarrow> parse M vars n (Bitor_Loop v) p1))
      else Inr (left, p))"
| "parse M vars (Suc n) Expr p = parse M vars n Bitor p"

abbreviation parse_primary :: "libm \<Rightarrow> Variable list \<Rightarrow> nat \<Rightarrow> Parser \<Rightarrow> fault + double \<times> Parser" where
  "parse_primary M vars n p \<equiv> parse M vars n Primary p"

abbreviation parse_power :: "libm \<Rightarrow> Variable list \<Rightarrow> nat \<Rightarrow> Parser \<Rightarrow> fault + double \<times> Parser" where
  "parse_power M vars n p \<equiv> parse M vars n Power p"

abbreviation parse_term :: "libm \<Rightarrow> Variable list \<Rightarrow> nat \<Rightarrow> Parser \<Rightarrow> fault + double \<times> Parser" where
  "parse_term M vars n p \<equiv> parse M vars n Term p"

abbreviation parse_additive :: "libm \<Rightarrow> Variable list \<Rightarrow> nat \<Rightarrow> Parser \<Rightarrow> fault + double \<times> Parser" where
  "parse_additive M vars n p \<equiv> parse M vars n Additive p"

abbreviation parse_shift :: "libm \<Rightarrow> Variable list \<Rightarrow> nat \<Rightarrow> Parser \<Rightarrow> fault + double \<times> Parser" where
  "parse_shift M vars n p \<equiv> parse M vars n Shift p"

abbreviation parse_bitand :: "libm \<Rightarrow> Variable list \<Rightarrow> nat \<Rightarrow> Parser \<Rightarrow> fault + double \<times> Parser" where
  "parse_bitand M vars n p \<equiv> parse M vars n Bitand p"

abbreviation parse_bitor :: "libm \<Rightarrow> Variable list \<Rightarrow> nat \<Rightarrow> Parser \<Rightarrow> fault + double \<times> Parser" where
  "parse_bitor M vars n p \<equiv> parse M vars n Bitor p"

abbreviation parse_expr :: "libm \<Rightarrow> Variable list \<Rightarrow> nat \<Rightarrow> Parser \<Rightarrow> fault + double \<times> Parser" where
  "parse_expr M vars n p \<equiv> parse M vars n Expr p"


text \<open>
  More fuel never changes a result: \<open>extends r r'\<close> says that \<open>r'\<close>, computed with more
  fuel, is \<open>r\<close> unless \<open>r\<close> ran out of fuel.
\<close>

definition extends :: "fault + 'a \<Rightarrow> fault + 'a \<Rightarrow> bool" where
  "extends r r' = (r = Inl Out_Of_Fuel \<or> r' = r)"

section \<open>Top level: assignment or expression\<close>

text \<open>
  The globals of the program: the output format and \<^verbatim>\<open>stderr\<close> (shared with the parser
  state), the variable table and \<^verbatim>\<open>stdout\<close> (one entry per call that prints).
\<close>

record Globals = Output +
  vars :: "Variable list"
  stdout :: "string list"

text \<open>
  \<^verbatim>\<open>evaluate\<close> resets the format, lexes the first token and, when it is an identifier,
  looks one token ahead for \<^verbatim>\<open>=\<close>; otherwise it restores cursor and token and parses an
  expression. The C string \<open>input\<close> ends at its first NUL. \<open>n\<close> bounds the depth of the
  calls of the parse functions.
\<close>

definition evaluate :: "libm \<Rightarrow> nat \<Rightarrow> string \<Rightarrow> Globals \<Rightarrow> fault + double \<times> Globals" where
  "evaluate M n input g =
     (let p0 = \<lparr>g_output_fmt = FMT_DEC, stderr = stderr g,
                pos = cstring input, cur = TOK_NUM (Fin False 0)\<rparr>;
          p = next_token p0
      in case cur p of
           TOK_ID name \<Rightarrow>
             (let p1 = next_token p in
              if cur p1 = TOK_OP (CHR ''='') then
                (case parse_expr M (vars g) n (next_token p1) of
                   Inl e \<Rightarrow> Inl e
                 | Inr (val, p2) \<Rightarrow>
                     Inr (val, g\<lparr>g_output_fmt := g_output_fmt p2, stderr := stderr p2,
                                 vars := set_var (vars g) name val\<rparr>))
              else
                (case parse_expr M (vars g) n (p1\<lparr>pos := pos p, cur := cur p\<rparr>) of
                   Inl e \<Rightarrow> Inl e
                 | Inr (val, p2) \<Rightarrow>
                     Inr (val, g\<lparr>g_output_fmt := g_output_fmt p2, stderr := stderr p2\<rparr>)))
         | _ \<Rightarrow>
             (case parse_expr M (vars g) n p of
                Inl e \<Rightarrow> Inl e
              | Inr (val, p2) \<Rightarrow>
                  Inr (val, g\<lparr>g_output_fmt := g_output_fmt p2, stderr := stderr p2\<rparr>)))"

section \<open>Output formatting\<close>

definition digit_char :: "nat \<Rightarrow> char" where
  "digit_char d = ''0123456789ABCDEF'' ! d"

text \<open>The digits of a natural number in a base from 2 to 16, without leading zeros.\<close>

fun show_nat :: "nat \<Rightarrow> nat \<Rightarrow> string" where
  "show_nat base n =
     (if base < 2 \<or> n < base then [digit_char n]
      else show_nat base (n div base) @ [digit_char (n mod base)])"

text \<open>
  The loop of \<^verbatim>\<open>print_binary\<close> fills \<^verbatim>\<open>buf\<close> from the right: \<^verbatim>\<open>while (val && i >= 0)\<close>. The first
  argument is the number \<open>i + 1\<close> of free places of the buffer, the last one the digits
  written so far.
\<close>

fun print_binary_loop :: "nat \<Rightarrow> 64 word \<Rightarrow> string \<Rightarrow> string" where
  "print_binary_loop 0 val buf = buf"
| "print_binary_loop (Suc i) val buf =
     (if val \<noteq> 0
      then print_binary_loop i (drop_bit 1 val) ((if val AND 1 = 0 then CHR ''0'' else CHR ''1'') # buf)
      else buf)"

definition print_binary :: "64 word \<Rightarrow> string" where
  "print_binary val =
     (if val = 0 then ''0b0'' @ [newline]
      else ''0b'' @ print_binary_loop 64 val [] @ [newline])"

text \<open>
  The two floating conversions of \<^verbatim>\<open>printf\<close> that \<^verbatim>\<open>print_result\<close> uses. \<^verbatim>\<open>%.0f\<close> prints the
  value rounded to an integer. \<^verbatim>\<open>%.12g\<close> rounds to 12 significant digits with decimal
  exponent \<open>X\<close>, prints in exponent style when \<open>X < -4\<close> or \<open>X \<ge> 12\<close> and in fixed style
  otherwise, and removes trailing zeros of the fraction.
\<close>

definition sign_text :: "bool \<Rightarrow> string" where
  "sign_text s = (if s then ''-'' else [])"

definition printf_f0 :: "double \<Rightarrow> string" where
  "printf_f0 x =
     (case x of
        NaN \<Rightarrow> ''nan''
      | Infty s \<Rightarrow> sign_text s @ ''inf''
      | Fin s m \<Rightarrow> sign_text s @ show_nat 10 (nat (round_half_even m)))"

definition ilog10 :: "rat \<Rightarrow> int" where
  "ilog10 q = (if 1 \<le> q then int (floorlog 10 (nat \<lfloor>q\<rfloor>)) - 1
               else let l = int (floorlog 10 (nat \<lfloor>1 / q\<rfloor>))
                    in if pow10 (1 - l) \<le> q then 1 - l else - l)"

definition strip_fraction :: "string \<Rightarrow> string \<Rightarrow> string" where
  "strip_fraction ip fp =
     (let f = rev (dropWhile (\<lambda>c. c = CHR ''0'') (rev fp))
      in if f = [] then ip else ip @ ''.'' @ f)"

definition printf_g12 :: "double \<Rightarrow> string" where
  "printf_g12 x =
     (case x of
        NaN \<Rightarrow> ''nan''
      | Infty s \<Rightarrow> sign_text s @ ''inf''
      | Fin s m \<Rightarrow> sign_text s @
          (if m = 0 then ''0''
           else
             let x0 = ilog10 m;
                 d0 = nat (round_half_even (m / pow10 (x0 - 11)));
                 X = (if d0 = 10 ^ 12 then x0 + 1 else x0);
                 ds = show_nat 10 (if d0 = 10 ^ 12 then 10 ^ 11 else d0)
             in if X < - 4 \<or> 12 \<le> X then
                  strip_fraction (take 1 ds) (drop 1 ds) @ ''e'' @ (if X < 0 then ''-'' else ''+'')
                    @ (if \<bar>X\<bar> < 10 then ''0'' else []) @ show_nat 10 (nat \<bar>X\<bar>)
                else if 0 \<le> X then strip_fraction (take (nat X + 1) ds) (drop (nat X + 1) ds)
                else strip_fraction ''0'' (replicate (nat (- X - 1)) (CHR ''0'') @ ds)))"

text \<open>
  \<^verbatim>\<open>print_result\<close> appends what it prints to \<^verbatim>\<open>stdout\<close>. The hexadecimal, binary and octal
  formats convert the value to \<^verbatim>\<open>uint64_t\<close> first.
\<close>

definition print_result :: "double \<Rightarrow> Globals \<Rightarrow> fault + Globals" where
  "print_result val g =
     (if isnan val then Inr g
      else case g_output_fmt g of
        FMT_HEX \<Rightarrow>
          (case to_uint64 val of
             Inl e \<Rightarrow> Inl e
           | Inr w \<Rightarrow> Inr (g\<lparr>stdout := stdout g @ [''0x'' @ show_nat 16 (unat w) @ [newline]]\<rparr>))
      | FMT_BIN \<Rightarrow>
          (case to_uint64 val of
             Inl e \<Rightarrow> Inl e
           | Inr w \<Rightarrow> Inr (g\<lparr>stdout := stdout g @ [print_binary w]\<rparr>))
      | FMT_OCT \<Rightarrow>
          (case to_uint64 val of
             Inl e \<Rightarrow> Inl e
           | Inr w \<Rightarrow> Inr (g\<lparr>stdout := stdout g @ [''0o'' @ show_nat 8 (unat w) @ [newline]]\<rparr>))
      | FMT_DEC \<Rightarrow>
          if dlt (fabs val) (Fin False (10 ^ 15)) \<and> deq val (dfloor val)
          then Inr (g\<lparr>stdout := stdout g @ [printf_f0 val @ [newline]]\<rparr>)
          else Inr (g\<lparr>stdout := stdout g @ [printf_g12 val @ [newline]]\<rparr>))"

section \<open>Interactive mode\<close>

text \<open>
  What the loop of \<^verbatim>\<open>repl\<close> does with a line it evaluates (a line that is not empty and
  not a command): evaluate, print, store the result under \<^verbatim>\<open>ans\<close>.
\<close>

definition repl_line :: "libm \<Rightarrow> nat \<Rightarrow> string \<Rightarrow> Globals \<Rightarrow> fault + Globals" where
  "repl_line M n line g =
     (case evaluate M n line g of
        Inl e \<Rightarrow> Inl e
      | Inr (result, g1) \<Rightarrow>
          (case print_result result g1 of
             Inl e \<Rightarrow> Inl e
           | Inr g2 \<Rightarrow> Inr (g2\<lparr>vars := set_var (vars g2) ''ans'' result\<rparr>)))"


section \<open>Notions used in the statements\<close>

text \<open>
  An identifier as the tokenizer reads it: a letter or underscore, then letters, digits and
  underscores, at most \<^verbatim>\<open>MAX_NAME - 1\<close> characters in all (a longer run of such characters
  is split into several tokens).
\<close>

definition valid_ident :: "string \<Rightarrow> bool" where
  "valid_ident v = (v \<noteq> [] \<and> (isalpha (hd v) \<or> hd v = CHR ''_'') \<and> list_all is_ident_char v
     \<and> length v < MAX_NAME)"

text \<open>The names \<^verbatim>\<open>get_var\<close> resolves without a user binding.\<close>

definition builtin_names :: "string list" where
  "builtin_names = [''pi'', ''PI'', ''e'', ''E'', ''ans'', ''KiB'', ''kib'', ''MiB'', ''mib'',
     ''GiB'', ''gib'', ''TiB'', ''tib'', ''KB'', ''kb'', ''MB'', ''mb'', ''GB'', ''gb'', ''TB'', ''tb'']"

definition undefined_name :: "Variable list \<Rightarrow> string \<Rightarrow> bool" where
  "undefined_name vs v = (find_var vs v = None \<and> v \<notin> set builtin_names)"

text \<open>
  \<open>lexes s tok s'\<close>: at the cursor \<open>s\<close> the tokenizer reads the token \<open>tok\<close> and leaves the
  cursor at \<open>s'\<close>.
\<close>

definition lexes :: "string \<Rightarrow> Token \<Rightarrow> string \<Rightarrow> bool" where
  "lexes s tok s' =
     (\<forall>f e c. next_token \<lparr>g_output_fmt = f, stderr = e, pos = s, cur = c\<rparr>
              = \<lparr>g_output_fmt = f, stderr = e, pos = s', cur = tok\<rparr>)"

text \<open>
  The table of binary operators in the words of the specification: the spellings, the
  precedence level of each (1 binds loosest), what each computes, and the value of
  \<open>x o1 y o2 z\<close> by the table: the left operator is applied first when it binds tighter, or
  as tight and is not the power operator (the only right-associative one).
\<close>

definition binary_operators :: "string list" where
  "binary_operators = [''|'', ''&'', ''<<'', ''>>'', ''+'', ''-'', ''*'', ''/'', ''%'', ''^'', ''**'']"

definition operator_char :: "string \<Rightarrow> char" where
  "operator_char o' =
     (if o' = ''<<'' then CHR ''L'' else if o' = ''>>'' then CHR ''R''
      else if o' = ''**'' then CHR ''^'' else hd o')"

definition operator_level :: "string \<Rightarrow> nat" where
  "operator_level o' =
     (if o' = ''|'' then 1 else if o' = ''&'' then 2
      else if o' = ''<<'' \<or> o' = ''>>'' then 3
      else if o' = ''+'' \<or> o' = ''-'' then 4
      else if o' = ''*'' \<or> o' = ''/'' \<or> o' = ''%'' then 5
      else 6)"

definition apply_operator :: "libm \<Rightarrow> string \<Rightarrow> double \<Rightarrow> double \<Rightarrow> fault + double" where
  "apply_operator M o' x y =
     (if o' = ''|'' then on_uint64 (\<lambda>a b. Inr (a OR b)) x y
      else if o' = ''&'' then on_uint64 (\<lambda>a b. Inr (a AND b)) x y
      else if o' = ''<<'' then shift_op True x y
      else if o' = ''>>'' then shift_op False x y
      else if o' = ''+'' then Inr (dadd x y)
      else if o' = ''-'' then Inr (dsub x y)
      else if o' = ''*'' then Inr (dmul x y)
      else if o' = ''/'' then Inr (ddiv x y)
      else if o' = ''%'' then Inr (fmod x y)
      else Inr (dpow M x y))"

definition by_precedence ::
  "libm \<Rightarrow> string \<Rightarrow> string \<Rightarrow> double \<Rightarrow> double \<Rightarrow> double \<Rightarrow> fault + double" where
  "by_precedence M o1 o2 x y z =
     (if operator_level o2 < operator_level o1
         \<or> (operator_level o1 = operator_level o2 \<and> operator_level o1 < 6)
      then (case apply_operator M o1 x y of Inl e \<Rightarrow> Inl e | Inr l \<Rightarrow> apply_operator M o2 l z)
      else (case apply_operator M o2 y z of Inl e \<Rightarrow> Inl e | Inr r \<Rightarrow> apply_operator M o1 x r))"

text \<open>
  The identifier lookup in the words of the specification: user bindings first, then the
  table of built-in constants, then the virtual \<^verbatim>\<open>ans\<close> (the value of the first stored
  binding, or 0 when there is none), and a diagnostic with the NaN sentinel otherwise.
\<close>

definition builtin_constants :: "(string \<times> double) list" where
  "builtin_constants = [(''pi'', PI), (''PI'', PI), (''e'', E), (''E'', E),
     (''KiB'', KiB), (''kib'', KiB), (''MiB'', MiB), (''mib'', MiB), (''GiB'', GiB), (''gib'', GiB),
     (''TiB'', TiB), (''tib'', TiB), (''KB'', KB), (''kb'', KB), (''MB'', MB), (''mb'', MB),
     (''GB'', GB), (''gb'', GB), (''TB'', TB), (''tb'', TB)]"

definition lookup_spec :: "Variable list \<Rightarrow> string \<Rightarrow> double \<times> string list" where
  "lookup_spec vs name =
     (case find_var vs name of
        Some v \<Rightarrow> (v, [])
      | None \<Rightarrow>
          (case map_of builtin_constants name of
             Some c \<Rightarrow> (c, [])
           | None \<Rightarrow>
               if name = ''ans'' then (case vs of [] \<Rightarrow> Fin False 0 | (n, v) # _ \<Rightarrow> v, [])
               else (NaN, [''undefined: '' @ name @ [newline]])))"

text \<open>
  A full variable table: 64 bindings with the distinct names \<^verbatim>\<open>aa\<close>, \<^verbatim>\<open>ab\<close>, ..., \<^verbatim>\<open>hh\<close>, as 64
  assignments leave it.
\<close>

definition full_table :: "Variable list" where
  "full_table = map (\<lambda>(a, b). ([a, b], Fin False 0)) (List.product ''abcdefgh'' ''abcdefgh'')"

section \<open>Evaluating the model\<close>

text \<open>Rules that let the simplifier run the definitions on concrete input.\<close>

lemma floor_rat_numeral [simp]: "\<lfloor>numeral a / numeral b :: rat\<rfloor> = numeral a div numeral b"
  by (metis floor_divide_of_int_eq of_int_numeral)

lemma ceiling_rat_numeral [simp]: "\<lceil>numeral a / numeral b :: rat\<rceil> = - (- numeral a div numeral b)"
  by (metis ceiling_divide_eq_div of_int_numeral)

lemmas double_eval = pow2_def pow10_def ilog2_def round_half_even_def round_mag_def make_double_def
  double_of_rat_def dsub_def fmax_def fmin_def is_int_def is_odd_int_def exact_pow_def dpow_def
  trunc_int_def to_uint64_def to_uint32_def to_uint16_def to_uint8_def to_int_def of_uint64_def
  double_of_nat_def shift_left_def shift_right_def bitlen_def compute_floorlog Let_def

lemma cstring_Cons: "cstring (c # s) = (if c = NUL then [] else c # cstring s)"
  by (simp add: cstring_def)

lemma cstring_Nil: "cstring [] = []"
  by (simp add: cstring_def)

lemmas next_token_Cons =
  next_token_def [of "\<lparr>g_output_fmt = f, stderr = e, pos = a # s, cur = c\<rparr>"] for f e a s c

lemmas next_token_Nil =
  next_token_def [of "\<lparr>g_output_fmt = f, stderr = e, pos = [], cur = c\<rparr>"] for f e c

lemmas lexer_eval = NUL_def cstring_Cons cstring_Nil code_def isspace_def isdigit_def isalpha_def
  isalnum_def digit_value_def is_digit_in_def strtoull_def strtod_exponent_def strtod_def
  skip_ws_def parse_number_decimal_def parse_number_def is_ident_char_def operator_token_def
  next_token_Cons next_token_Nil MAX_NAME_def

lemmas parser_eval = syntax_error_def skip_rparen_def term_op_def on_uint64_def shift_op_def
  call_func2_def call_func_def libm_names_def newline_def MAX_VARS_def evaluate_def

lemmas parse_numeral = parse.simps(2-14)[of _ _ "pred_numeral v", folded numeral_eq_Suc] for v

lemmas weak_congs = Token.case_cong_weak sum.case_cong_weak prod.case_cong_weak
  production.case_cong_weak option.case_cong_weak OutputFormat.case_cong_weak
  double.case_cong_weak

declare show_nat.simps [simp del]

lemmas show_nat_eval = show_nat.simps [of _ "numeral n"] show_nat.simps [of _ 0]
  show_nat.simps [of _ 1] for n

lemmas print_eval = print_result_def print_binary_def printf_f0_def printf_g12_def sign_text_def
  strip_fraction_def ilog10_def digit_char_def show_nat_eval repl_line_def

subsection \<open>More fuel gives the same result\<close>

lemma extends_refl: "extends r r"
  by (simp add: extends_def)

lemma extends_bind:
  "extends x x' \<Longrightarrow> (\<And>a b. extends (g a b) (g' a b)) \<Longrightarrow>
   extends (case x of Inl e \<Rightarrow> Inl e | Inr (a, b) \<Rightarrow> g a b)
           (case x' of Inl e \<Rightarrow> Inl e | Inr (a, b) \<Rightarrow> g' a b)"
  by (auto simp: extends_def split: sum.splits)

lemma extends_bind1:
  "(\<And>a. extends (g a) (g' a)) \<Longrightarrow>
   extends (case x of Inl e \<Rightarrow> Inl e | Inr a \<Rightarrow> g a)
           (case x of Inl e \<Rightarrow> Inl e | Inr a \<Rightarrow> g' a)"
  by (auto simp: extends_def split: sum.splits)

lemma extends_if:
  "(c \<Longrightarrow> extends a a') \<Longrightarrow> (\<not> c \<Longrightarrow> extends b b') \<Longrightarrow>
   extends (if c then a else b) (if c then a' else b')"
  by simp

lemmas extends_intros = extends_if extends_bind extends_bind1

lemma parse_extends: "extends (parse M vs n f p) (parse M vs (n + k) f p)"
proof (induction n arbitrary: f p)
  case 0
  show ?case by (simp add: extends_def)
next
  case (Suc n)
  note IH = Suc.IH
  show ?case
  proof (cases f)
    case Primary
    show ?thesis
      unfolding Primary add_Suc parse.simps Let_def
      by (auto split: Token.splits intro!: extends_intros IH extends_refl)
  next
    case Power
    show ?thesis
      unfolding Power add_Suc parse.simps
      by (intro extends_intros IH extends_refl)
  next
    case Term
    show ?thesis
      unfolding Term add_Suc parse.simps
      by (intro extends_intros IH extends_refl)
  next
    case (Term_Loop left)
    show ?thesis
      unfolding Term_Loop add_Suc parse.simps
      by (auto split: Token.splits intro!: extends_intros IH extends_refl)
  next
    case Additive
    show ?thesis
      unfolding Additive add_Suc parse.simps
      by (intro extends_intros IH extends_refl)
  next
    case (Additive_Loop left)
    show ?thesis
      unfolding Additive_Loop add_Suc parse.simps
      by (auto split: Token.splits intro!: extends_intros IH extends_refl)
  next
    case Shift
    show ?thesis
      unfolding Shift add_Suc parse.simps
      by (intro extends_intros IH extends_refl)
  next
    case (Shift_Loop left)
    show ?thesis
      unfolding Shift_Loop add_Suc parse.simps
      by (auto split: Token.splits intro!: extends_intros IH extends_refl)
  next
    case Bitand
    show ?thesis
      unfolding Bitand add_Suc parse.simps
      by (intro extends_intros IH extends_refl)
  next
    case (Bitand_Loop left)
    show ?thesis
      unfolding Bitand_Loop add_Suc parse.simps
      by (intro extends_intros IH extends_refl)
  next
    case Bitor
    show ?thesis
      unfolding Bitor add_Suc parse.simps
      by (intro extends_intros IH extends_refl)
  next
    case (Bitor_Loop left)
    show ?thesis
      unfolding Bitor_Loop add_Suc parse.simps
      by (intro extends_intros IH extends_refl)
  next
    case Expr
    show ?thesis
      unfolding Expr add_Suc parse.simps
      by (intro IH)
  qed
qed

lemma parse_mono: "parse M vs n f p = Inr r \<Longrightarrow> parse M vs (n + k) f p = Inr r"
  using parse_extends [of M vs n f p k] by (simp add: extends_def)

lemma evaluate_extends: "extends (evaluate M n input g) (evaluate M (n + k) input g)"
  unfolding evaluate_def Let_def
  by (auto split: Token.splits intro!: extends_intros parse_extends extends_refl)

lemma evaluate_mono: "evaluate M n input g = Inr r \<Longrightarrow> evaluate M (n + k) input g = Inr r"
  using evaluate_extends [of M n input g k] by (simp add: extends_def)

lemma evaluate_mono_fault:
  "evaluate M n input g = Inl e \<Longrightarrow> e \<noteq> Out_Of_Fuel \<Longrightarrow> evaluate M (n + k) input g = Inl e"
  using evaluate_extends [of M n input g k] by (simp add: extends_def)

lemma repl_line_extends: "extends (repl_line M n line g) (repl_line M (n + k) line g)"
  unfolding repl_line_def
  using evaluate_extends [of M n line g k]
  by (auto simp: extends_def split: sum.splits)

lemma repl_line_mono: "repl_line M n line g = Inr r \<Longrightarrow> repl_line M (n + k) line g = Inr r"
  using repl_line_extends [of M n line g k] by (simp add: extends_def)

section \<open>Lexing identifiers\<close>

lemma isalpha_facts:
  "isalpha c \<Longrightarrow> \<not> isspace c \<and> \<not> isdigit c \<and> c \<noteq> CHR ''0'' \<and> c \<noteq> CHR ''.'' \<and> c \<noteq> NUL \<and> is_ident_char c"
  by (auto simp: isalpha_def isspace_def isdigit_def code_def NUL_def is_ident_char_def isalnum_def)

lemma underscore_facts:
  "\<not> isspace (CHR ''_'') \<and> \<not> isdigit (CHR ''_'') \<and> CHR ''_'' \<noteq> NUL \<and> is_ident_char (CHR ''_'')"
  by (simp add: isspace_def isdigit_def code_def NUL_def is_ident_char_def)

lemma is_ident_char_not_NUL: "is_ident_char c \<Longrightarrow> c \<noteq> NUL"
  by (auto simp: is_ident_char_def isalnum_def isalpha_def isdigit_def code_def NUL_def)

lemma not_ident_NUL [simp]: "\<not> is_ident_char NUL"
  using is_ident_char_not_NUL by blast

lemma takeWhile_run:
  "list_all P xs \<Longrightarrow> ys = [] \<or> \<not> P (hd ys) \<Longrightarrow> takeWhile P (xs @ ys) = xs"
  by (cases ys) (auto simp: list_all_iff takeWhile_append2)

lemma dropWhile_run:
  "list_all P xs \<Longrightarrow> ys = [] \<or> \<not> P (hd ys) \<Longrightarrow> dropWhile P (xs @ ys) = ys"
  by (cases ys) (auto simp: list_all_iff dropWhile_append2)

text \<open>An identifier that no identifier character follows is one token.\<close>

lemma next_token_ident:
  assumes "valid_ident v" "\<not> is_ident_char (peek rest)"
  shows "next_token \<lparr>g_output_fmt = f, stderr = e, pos = v @ rest, cur = c\<rparr>
       = \<lparr>g_output_fmt = f, stderr = e, pos = rest, cur = TOK_ID v\<rparr>"
proof -
  from assms(1) obtain a as where v: "v = a # as" and a: "isalpha a \<or> a = CHR ''_''"
    and all: "list_all is_ident_char v" and len: "length v < MAX_NAME"
    by (cases v) (auto simp: valid_ident_def)
  have a_facts: "\<not> isspace a" "\<not> isdigit a" "a \<noteq> CHR ''0''" "a \<noteq> CHR ''.''" "a \<noteq> NUL"
    using a isalpha_facts [of a] underscore_facts by auto
  have ws: "skip_ws (v @ rest) = v @ rest"
    using a_facts by (simp add: skip_ws_def v)
  have pn: "parse_number (v @ rest) = None"
    using a_facts by (simp add: parse_number_def parse_number_decimal_def v)
  have rest: "rest = [] \<or> \<not> is_ident_char (hd rest)"
    using assms(2) by (cases rest) auto
  have tw: "takeWhile is_ident_char (v @ rest) = v"
    using all rest by (rule takeWhile_run)
  have pk: "peek (v @ rest) = a"
    by (simp add: v)
  show ?thesis
    using a a_facts len
    by (simp add: next_token_def ws pn tw pk Let_def)
qed

lemma cstring_ident: "list_all is_ident_char v \<Longrightarrow> cstring (v @ rest) = v @ cstring rest"
  unfolding cstring_def
  by (rule takeWhile_append2) (auto simp: list_all_iff dest: is_ident_char_not_NUL)

lemma get_var_undefined:
  "undefined_name vs v \<Longrightarrow> get_var vs v = (NaN, [''undefined: '' @ v @ [newline]])"
  by (auto simp: undefined_name_def get_var_def builtin_names_def)

lemma undefined_plus_one:
  assumes "valid_ident v" "undefined_name (vars g) v"
  shows "evaluate M 20 (v @ '' + 1'') g
       = Inr (NaN, g\<lparr>g_output_fmt := FMT_DEC, stderr := stderr g @ [''undefined: '' @ v @ [newline]]\<rparr>)"
proof -
  have all: "list_all is_ident_char v"
    using assms(1) by (simp add: valid_ident_def)
  show ?thesis
    using assms
    by (simp add: cstring_ident [OF all] next_token_ident get_var_undefined
        lexer_eval double_eval parser_eval parse_numeral cong: weak_congs)
qed

section \<open>Expressions of identifiers and operators\<close>

lemma lexes_ident: "valid_ident v \<Longrightarrow> \<not> is_ident_char (peek rest) \<Longrightarrow> lexes (v @ rest) (TOK_ID v) rest"
  by (simp add: lexes_def next_token_ident)

lemma lexes_end: "lexes [] TOK_END []"
  by (simp add: lexes_def next_token_Nil skip_ws_def)

lemma ident_start_facts:
  "isalpha r \<or> r = CHR ''_'' \<Longrightarrow> r \<noteq> CHR ''*'' \<and> r \<noteq> CHR ''<'' \<and> r \<noteq> CHR ''>''"
  by (auto simp: isalpha_def code_def)

lemma lexes_operator:
  assumes "o' \<in> set binary_operators" "isalpha (peek rest) \<or> peek rest = CHR ''_''"
  shows "lexes (o' @ rest) (TOK_OP (operator_char o')) rest"
  using assms(1) ident_start_facts [OF assms(2)]
  unfolding binary_operators_def lexes_def
  by (auto simp: next_token_Cons skip_ws_def isspace_def isdigit_def isalpha_def code_def NUL_def
      parse_number_def parse_number_decimal_def operator_token_def operator_char_def)

lemma bind_assoc:
  "(case (case S of Inl e \<Rightarrow> Inl e | Inr v \<Rightarrow> G v) of Inl e \<Rightarrow> Inl e | Inr y \<Rightarrow> H y)
   = (case S of Inl e \<Rightarrow> Inl e | Inr v \<Rightarrow> (case G v of Inl e \<Rightarrow> Inl e | Inr y \<Rightarrow> H y))"
  by (simp split: sum.split)

lemma evaluate_three_operands:
  assumes O: "o1 \<in> set binary_operators" "o2 \<in> set binary_operators"
    and L: "lexes (cstring input) (TOK_ID a) s1" "lexes s1 (TOK_OP (operator_char o1)) s2"
      "lexes s2 (TOK_ID b) s3" "lexes s3 (TOK_OP (operator_char o2)) s4"
      "lexes s4 (TOK_ID c) s5" "lexes s5 TOK_END s6"
    and G: "get_var (vars g) a = (x, ma)" "get_var (vars g) b = (y, mb)" "get_var (vars g) c = (z, mc)"
  shows "evaluate M 20 input g
       = (case by_precedence M o1 o2 x y z of
            Inl e \<Rightarrow> Inl e
          | Inr v \<Rightarrow> Inr (v, g\<lparr>g_output_fmt := FMT_DEC, stderr := stderr g @ ma @ mb @ mc\<rparr>))"
proof -
  have o1: "o1 = ''|'' \<or> o1 = ''&'' \<or> o1 = ''<<'' \<or> o1 = ''>>'' \<or> o1 = ''+'' \<or> o1 = ''-''
      \<or> o1 = ''*'' \<or> o1 = ''/'' \<or> o1 = ''%'' \<or> o1 = ''^'' \<or> o1 = ''**''"
    using O(1) by (simp add: binary_operators_def)
  have o2: "o2 = ''|'' \<or> o2 = ''&'' \<or> o2 = ''<<'' \<or> o2 = ''>>'' \<or> o2 = ''+'' \<or> o2 = ''-''
      \<or> o2 = ''*'' \<or> o2 = ''/'' \<or> o2 = ''%'' \<or> o2 = ''^'' \<or> o2 = ''**''"
    using O(2) by (simp add: binary_operators_def)
  from o1 o2 L G show ?thesis
    unfolding lexes_def
    by (elim disjE; simp add: evaluate_def operator_char_def by_precedence_def operator_level_def
      apply_operator_def parse_numeral term_op_def bind_assoc cong: sum.case_cong)
qed

lemma cstring_no_NUL: "NUL \<notin> set s \<Longrightarrow> cstring s = s"
  by (auto simp: cstring_def)

lemma peek_append: "v \<noteq> [] \<Longrightarrow> peek (v @ rest) = hd v"
  by (cases v) simp_all

lemma peek_hd: "v \<noteq> [] \<Longrightarrow> peek v = hd v"
  by (cases v) simp_all

lemma operator_facts:
  "o' \<in> set binary_operators \<Longrightarrow> o' \<noteq> [] \<and> \<not> is_ident_char (hd o') \<and> NUL \<notin> set o'"
  by (auto simp: binary_operators_def is_ident_char_def isalnum_def isalpha_def isdigit_def
      code_def NUL_def)

lemma ident_facts:
  "valid_ident v \<Longrightarrow> v \<noteq> [] \<and> (isalpha (hd v) \<or> hd v = CHR ''_'') \<and> NUL \<notin> set v"
  by (auto simp: valid_ident_def list_all_iff)

lemma to_uint64_not_fuel: "to_uint64 x \<noteq> Inl Out_Of_Fuel"
  by (simp add: to_uint64_def split: option.split)

lemma to_int_not_fuel: "to_int x \<noteq> Inl Out_Of_Fuel"
  by (simp add: to_int_def split: option.split)

lemma apply_operator_not_fuel: "apply_operator M o' x y \<noteq> Inl Out_Of_Fuel"
  using to_uint64_not_fuel [of x] to_uint64_not_fuel [of y] to_int_not_fuel [of y]
  by (auto simp: apply_operator_def on_uint64_def shift_op_def shift_left_def shift_right_def
      split: sum.split)

lemma by_precedence_not_fuel: "by_precedence M o1 o2 x y z \<noteq> Inl Out_Of_Fuel"
  by (auto simp: by_precedence_def apply_operator_not_fuel split: sum.split)

lemma evaluate_three_identifiers:
  assumes O: "o1 \<in> set binary_operators" "o2 \<in> set binary_operators"
    and V: "valid_ident a" "valid_ident b" "valid_ident c"
    and G: "get_var (vars g) a = (x, ma)" "get_var (vars g) b = (y, mb)" "get_var (vars g) c = (z, mc)"
  shows "evaluate M (20 + k) (a @ o1 @ b @ o2 @ c) g
       = (case by_precedence M o1 o2 x y z of
            Inl e \<Rightarrow> Inl e
          | Inr v \<Rightarrow> Inr (v, g\<lparr>g_output_fmt := FMT_DEC, stderr := stderr g @ ma @ mb @ mc\<rparr>))"
proof -
  note of = operator_facts [OF O(1)] operator_facts [OF O(2)]
  note vf = ident_facts [OF V(1)] ident_facts [OF V(2)] ident_facts [OF V(3)]
  have cs: "cstring (a @ o1 @ b @ o2 @ c) = a @ o1 @ b @ o2 @ c"
    using of vf by (simp add: cstring_no_NUL)
  have l1: "lexes (cstring (a @ o1 @ b @ o2 @ c)) (TOK_ID a) (o1 @ b @ o2 @ c)"
    unfolding cs using of by (intro lexes_ident V) (simp add: peek_append)
  have l2: "lexes (o1 @ b @ o2 @ c) (TOK_OP (operator_char o1)) (b @ o2 @ c)"
    using vf by (intro lexes_operator O) (simp add: peek_append)
  have l3: "lexes (b @ o2 @ c) (TOK_ID b) (o2 @ c)"
    using of by (intro lexes_ident V) (simp add: peek_append)
  have l4: "lexes (o2 @ c) (TOK_OP (operator_char o2)) c"
    using vf lexes_operator [OF O(2), of c] by (simp add: peek_hd)
  have l5: "lexes c (TOK_ID c) []"
    using lexes_ident [OF V(3), of "[]"] by simp
  note r = evaluate_three_operands [OF O l1 l2 l3 l4 l5 lexes_end G, of M]
  show ?thesis
    using evaluate_extends [of M 20 "a @ o1 @ b @ o2 @ c" g k] by_precedence_not_fuel [of M o1 o2 x y z]
    unfolding r extends_def
    by (auto split: sum.splits)
qed

lemma evaluate_two_operands:
  assumes O: "o' \<in> set binary_operators"
    and L: "lexes (cstring input) (TOK_ID a) s1" "lexes s1 (TOK_OP (operator_char o')) s2"
      "lexes s2 (TOK_ID b) s3" "lexes s3 TOK_END s4"
    and G: "get_var (vars g) a = (x, ma)" "get_var (vars g) b = (y, mb)"
  shows "evaluate M 20 input g
       = (case apply_operator M o' x y of
            Inl e \<Rightarrow> Inl e
          | Inr v \<Rightarrow> Inr (v, g\<lparr>g_output_fmt := FMT_DEC, stderr := stderr g @ ma @ mb\<rparr>))"
proof -
  have o: "o' = ''|'' \<or> o' = ''&'' \<or> o' = ''<<'' \<or> o' = ''>>'' \<or> o' = ''+'' \<or> o' = ''-''
      \<or> o' = ''*'' \<or> o' = ''/'' \<or> o' = ''%'' \<or> o' = ''^'' \<or> o' = ''**''"
    using O by (simp add: binary_operators_def)
  from o L G show ?thesis
    unfolding lexes_def
    by (elim disjE; simp add: evaluate_def operator_char_def
      apply_operator_def parse_numeral term_op_def bind_assoc cong: sum.case_cong)
qed

lemma evaluate_two_identifiers:
  assumes O: "o' \<in> set binary_operators"
    and V: "valid_ident a" "valid_ident b"
    and G: "get_var (vars g) a = (x, ma)" "get_var (vars g) b = (y, mb)"
  shows "evaluate M (20 + k) (a @ o' @ b) g
       = (case apply_operator M o' x y of
            Inl e \<Rightarrow> Inl e
          | Inr v \<Rightarrow> Inr (v, g\<lparr>g_output_fmt := FMT_DEC, stderr := stderr g @ ma @ mb\<rparr>))"
proof -
  note of = operator_facts [OF O]
  note vf = ident_facts [OF V(1)] ident_facts [OF V(2)]
  have cs: "cstring (a @ o' @ b) = a @ o' @ b"
    using of vf by (simp add: cstring_no_NUL)
  have l1: "lexes (cstring (a @ o' @ b)) (TOK_ID a) (o' @ b)"
    unfolding cs using of by (intro lexes_ident V) (simp add: peek_append)
  have l2: "lexes (o' @ b) (TOK_OP (operator_char o')) b"
    using vf lexes_operator [OF O, of b] by (simp add: peek_hd)
  have l3: "lexes b (TOK_ID b) []"
    using lexes_ident [OF V(2), of "[]"] by simp
  note r = evaluate_two_operands [OF O l1 l2 l3 lexes_end G, of M]
  show ?thesis
    using evaluate_extends [of M 20 "a @ o' @ b" g k] apply_operator_not_fuel [of M o' x y]
    unfolding r extends_def
    by (auto split: sum.splits)
qed

section \<open>Precedence and associativity\<close>

text \<open>
  C1. The parser honours the precedence and associativity table. For identifiers \<open>a\<close>, \<open>b\<close>
  and \<open>c\<close> that stand for any three values and any two binary operators \<open>o1\<close> and \<open>o2\<close> of
  the grammar, \<open>a o1 b o2 c\<close> evaluates to what the table prescribes (\<open>by_precedence\<close>): the
  operator on the higher level is applied first, operators of one level from left to
  right, except power (\<^verbatim>\<open>^\<close> and \<^verbatim>\<open>**\<close>), which goes from right to left. The levels are, from
  the loosest: \<^verbatim>\<open>|\<close>, then \<^verbatim>\<open>&\<close>, then the shifts, then \<^verbatim>\<open>+\<close> and \<^verbatim>\<open>-\<close>, then \<^verbatim>\<open>*\<close>, \<^verbatim>\<open>/\<close> and \<^verbatim>\<open>%\<close>,
  then power. For every math library, every state of the globals and every depth bound
  from 20 on, \<^verbatim>\<open>2^3^2\<close> evaluates to 512 (as does \<^verbatim>\<open>2**3**2\<close>), \<^verbatim>\<open>2-3-4\<close> to -5 and \<^verbatim>\<open>1<<2+1\<close> to
  8; moreover \<^verbatim>\<open>2*3^2\<close> is 18, \<^verbatim>\<open>6&1<<2\<close> is 4 and \<^verbatim>\<open>1|2&4\<close> is 1. Of the globals only the
  output format is touched (it is reset to decimal) and \<^verbatim>\<open>stderr\<close>, which receives what the
  lookups of the identifiers print, from left to right.
\<close>

theorem precedence_and_associativity:
  "(o1 \<in> set binary_operators \<and> o2 \<in> set binary_operators
      \<and> valid_ident a \<and> valid_ident b \<and> valid_ident c
      \<and> get_var (vars g) a = (x, ma) \<and> get_var (vars g) b = (y, mb) \<and> get_var (vars g) c = (z, mc)
    \<longrightarrow> evaluate M (20 + k) (a @ o1 @ b @ o2 @ c) g
        = (case by_precedence M o1 o2 x y z of
             Inl e \<Rightarrow> Inl e
           | Inr v \<Rightarrow> Inr (v, g\<lparr>g_output_fmt := FMT_DEC, stderr := stderr g @ ma @ mb @ mc\<rparr>)))
   \<and> evaluate M (20 + k) ''2^3^2'' g = Inr (Fin False 512, g\<lparr>g_output_fmt := FMT_DEC\<rparr>)
   \<and> evaluate M (20 + k) ''2**3**2'' g = Inr (Fin False 512, g\<lparr>g_output_fmt := FMT_DEC\<rparr>)
   \<and> evaluate M (20 + k) ''2-3-4'' g = Inr (Fin True 5, g\<lparr>g_output_fmt := FMT_DEC\<rparr>)
   \<and> evaluate M (20 + k) ''1<<2+1'' g = Inr (Fin False 8, g\<lparr>g_output_fmt := FMT_DEC\<rparr>)
   \<and> evaluate M (20 + k) ''2*3^2'' g = Inr (Fin False 18, g\<lparr>g_output_fmt := FMT_DEC\<rparr>)
   \<and> evaluate M (20 + k) ''6&1<<2'' g = Inr (Fin False 4, g\<lparr>g_output_fmt := FMT_DEC\<rparr>)
   \<and> evaluate M (20 + k) ''1|2&4'' g = Inr (Fin False 1, g\<lparr>g_output_fmt := FMT_DEC\<rparr>)"
proof -
  have "evaluate M 20 ''2^3^2'' g = Inr (Fin False 512, g\<lparr>g_output_fmt := FMT_DEC\<rparr>)"
    by (simp add: lexer_eval double_eval parser_eval parse_numeral cong: weak_congs)
  moreover have "evaluate M 20 ''2**3**2'' g = Inr (Fin False 512, g\<lparr>g_output_fmt := FMT_DEC\<rparr>)"
    by (simp add: lexer_eval double_eval parser_eval parse_numeral cong: weak_congs)
  moreover have "evaluate M 20 ''2-3-4'' g = Inr (Fin True 5, g\<lparr>g_output_fmt := FMT_DEC\<rparr>)"
    by (simp add: lexer_eval double_eval parser_eval parse_numeral cong: weak_congs)
  moreover have "evaluate M 20 ''1<<2+1'' g = Inr (Fin False 8, g\<lparr>g_output_fmt := FMT_DEC\<rparr>)"
    by (simp add: lexer_eval double_eval parser_eval parse_numeral cong: weak_congs)
  moreover have "evaluate M 20 ''2*3^2'' g = Inr (Fin False 18, g\<lparr>g_output_fmt := FMT_DEC\<rparr>)"
    by (simp add: lexer_eval double_eval parser_eval parse_numeral cong: weak_congs)
  moreover have "evaluate M 20 ''6&1<<2'' g = Inr (Fin False 4, g\<lparr>g_output_fmt := FMT_DEC\<rparr>)"
    by (simp add: lexer_eval double_eval parser_eval parse_numeral cong: weak_congs)
  moreover have "evaluate M 20 ''1|2&4'' g = Inr (Fin False 1, g\<lparr>g_output_fmt := FMT_DEC\<rparr>)"
    by (simp add: lexer_eval double_eval parser_eval parse_numeral cong: weak_congs)
  ultimately show ?thesis
    using evaluate_three_identifiers [of o1 o2 a b c g x ma y mb z mc M k]
    by (simp only: evaluate_mono) blast
qed

theorem precedence_and_associativity_witness:
  "''^'' \<in> set binary_operators \<and> ''-'' \<in> set binary_operators
   \<and> valid_ident ''a'' \<and> valid_ident ''b'' \<and> valid_ident ''c''
   \<and> get_var [(''a'', Fin False 2), (''b'', Fin False 3), (''c'', Fin False 2)] ''a'' = (Fin False 2, [])
   \<and> get_var [(''a'', Fin False 2), (''b'', Fin False 3), (''c'', Fin False 2)] ''b'' = (Fin False 3, [])
   \<and> get_var [(''a'', Fin False 2), (''b'', Fin False 3), (''c'', Fin False 2)] ''c'' = (Fin False 2, [])
   \<and> evaluate (\<lambda>name args. NaN) 20 ''a^b^c''
        \<lparr>g_output_fmt = FMT_HEX, stderr = [],
         vars = [(''a'', Fin False 2), (''b'', Fin False 3), (''c'', Fin False 2)], stdout = []\<rparr>
      = Inr (Fin False 512, \<lparr>g_output_fmt = FMT_DEC, stderr = [],
         vars = [(''a'', Fin False 2), (''b'', Fin False 3), (''c'', Fin False 2)], stdout = []\<rparr>)
   \<and> evaluate (\<lambda>name args. NaN) 20 ''a-b-c''
        \<lparr>g_output_fmt = FMT_HEX, stderr = [],
         vars = [(''a'', Fin False 2), (''b'', Fin False 3), (''c'', Fin False 2)], stdout = []\<rparr>
      = Inr (Fin True 3, \<lparr>g_output_fmt = FMT_DEC, stderr = [],
         vars = [(''a'', Fin False 2), (''b'', Fin False 3), (''c'', Fin False 2)], stdout = []\<rparr>)"
proof -
  let ?M = "\<lambda>name args. NaN"
  let ?vs = "[(''a'', Fin False 2), (''b'', Fin False 3), (''c'', Fin False 2)]"
  let ?g = "\<lparr>g_output_fmt = FMT_HEX, stderr = [], vars = ?vs, stdout = []\<rparr>"
  have h: "''^'' \<in> set binary_operators" "''-'' \<in> set binary_operators"
    "valid_ident ''a''" "valid_ident ''b''" "valid_ident ''c''"
    "get_var (vars ?g) ''a'' = (Fin False 2, [])" "get_var (vars ?g) ''b'' = (Fin False 3, [])"
    "get_var (vars ?g) ''c'' = (Fin False 2, [])"
    by (simp_all add: binary_operators_def valid_ident_def get_var_def lexer_eval is_ident_char_def
        MAX_NAME_def)
  have r: "by_precedence ?M ''^'' ''^'' (Fin False 2) (Fin False 3) (Fin False 2) = Inr (Fin False 512)"
    "by_precedence ?M ''-'' ''-'' (Fin False 2) (Fin False 3) (Fin False 2) = Inr (Fin True 3)"
    by (simp_all add: by_precedence_def operator_level_def apply_operator_def double_eval)
  show ?thesis
    using h r
      precedence_and_associativity [where ?o1.0 = "''^''" and ?o2.0 = "''^''" and a = "''a''"
        and b = "''b''" and c = "''c''" and g = ?g and M = ?M and k = 0
        and x = "Fin False 2" and y = "Fin False 3" and z = "Fin False 2"
        and ma = "[]" and mb = "[]" and mc = "[]"]
      precedence_and_associativity [where ?o1.0 = "''-''" and ?o2.0 = "''-''" and a = "''a''"
        and b = "''b''" and c = "''c''" and g = ?g and M = ?M and k = 0
        and x = "Fin False 2" and y = "Fin False 3" and z = "Fin False 2"
        and ma = "[]" and mb = "[]" and mc = "[]"]
    by simp
qed

section \<open>Propagation of the not-a-number sentinel\<close>

lemma dadd_NaN [simp]: "dadd x NaN = NaN"
  by (cases x) simp_all

lemma dmul_NaN [simp]: "dmul x NaN = NaN"
  by (cases x) simp_all

lemma ddiv_NaN [simp]: "ddiv x NaN = NaN"
  by (cases x) simp_all

lemma fmod_NaN [simp]: "fmod x NaN = NaN"
  by (cases x) simp_all

lemma make_double_not_NaN [simp]: "make_double s m \<noteq> NaN"
  by (simp add: make_double_def Let_def)

lemma on_uint64_not_NaN: "on_uint64 f x y \<noteq> Inr NaN"
  by (simp add: on_uint64_def of_uint64_def split: sum.splits)

lemma shift_op_not_NaN: "shift_op b x y \<noteq> Inr NaN"
  by (simp add: shift_op_def of_uint64_def split: sum.splits)

lemma to_uint64_NaN [simp]: "to_uint64 NaN = Inl Undefined_Conversion"
  by (simp add: to_uint64_def trunc_int_def)

lemma to_int_NaN [simp]: "to_int NaN = Inl Undefined_Conversion"
  by (simp add: to_int_def trunc_int_def)

lemma to_uint64_fault: "to_uint64 x = Inl e \<Longrightarrow> e = Undefined_Conversion"
  by (auto simp: to_uint64_def split: option.splits if_splits)

lemma on_uint64_NaN_right: "on_uint64 f x NaN = Inl Undefined_Conversion"
  using to_uint64_fault [of x] by (auto simp: on_uint64_def split: sum.split)

lemma shift_op_NaN_right: "shift_op l x NaN = Inl Undefined_Conversion"
  using to_uint64_fault [of x] by (auto simp: shift_op_def split: sum.split)

lemma on_uint64_NaN_left: "on_uint64 f NaN y = Inl Undefined_Conversion"
  by (simp add: on_uint64_def)

lemma shift_op_NaN_left: "shift_op l NaN y = Inl Undefined_Conversion"
  by (simp add: shift_op_def)

lemma dpow_NaN_left: "dpow M NaN y = (if is_zero y then Fin False 1 else NaN)"
  by (simp add: dpow_def)

lemma dpow_NaN_right: "dpow M x NaN = (if x = Fin False 1 then Fin False 1 else NaN)"
  by (simp add: dpow_def)

text \<open>
  The claim C2 as stated fails for the power operator: with \<open>v\<close> undefined, the operand \<open>v\<close>
  of \<^verbatim>\<open>v^0\<close> is the NaN sentinel and the result is 1.
\<close>

theorem nan_power_counterexample:
  "get_var [] ''v'' = (NaN, [''undefined: v'' @ [newline]])
   \<and> evaluate (\<lambda>name args. NaN) 20 ''v^0'' \<lparr>g_output_fmt = FMT_DEC, stderr = [], vars = [], stdout = []\<rparr>
     = Inr (Fin False 1, \<lparr>g_output_fmt = FMT_DEC, stderr = [''undefined: v'' @ [newline]], vars = [], stdout = []\<rparr>)"
  by (simp add: lexer_eval double_eval parser_eval get_var_def
      parse_numeral cong: weak_congs)

lemma nan_bitor_undefined:
  "evaluate M 20 ''v|1'' \<lparr>g_output_fmt = FMT_DEC, stderr = [], vars = [], stdout = []\<rparr>
     = Inl Undefined_Conversion"
  by (simp add: lexer_eval double_eval parser_eval get_var_def
      parse_numeral cong: weak_congs)

text \<open>
  C2, as the code has it. Let \<open>v\<close> be an identifier that is neither bound nor built in, so
  that its value is the NaN sentinel, and \<open>w\<close> an identifier that stands for any value \<open>y\<close>.
  With \<open>v\<close> as the left or as the right operand, \<^verbatim>\<open>+\<close>, \<^verbatim>\<open>-\<close>, \<^verbatim>\<open>*\<close>, \<^verbatim>\<open>/\<close> and \<^verbatim>\<open>%\<close> evaluate to NaN.
  The power operator evaluates to NaN unless the exponent is a zero (\<^verbatim>\<open>v^w\<close>) or the base is 1
  (\<^verbatim>\<open>w^v\<close>): \<^verbatim>\<open>pow\<close> returns 1 there. The bitwise operators \<^verbatim>\<open>&\<close>, \<^verbatim>\<open>|\<close>, \<^verbatim>\<open><<\<close> and \<^verbatim>\<open>>>\<close> convert
  the sentinel to an integer, which C leaves undefined (the fault \<open>Undefined_Conversion\<close>), and
  their result, converted back from an integer, is never a NaN. \<open>v + 1\<close> evaluates to NaN
  and reports \<open>v\<close> as undefined; the sentinel of an unknown function (\<^verbatim>\<open>nosuch(1) * 2\<close>) and of a
  syntax error (\<^verbatim>\<open>2 - (1 + )\<close>) propagates in the same way. The operations themselves behave
  so on any operands \<open>a\<close> and \<open>b\<close>.
\<close>

theorem nan_propagation:
  assumes "valid_ident v" "undefined_name (vars g) v" "valid_ident w" "get_var (vars g) w = (y, mw)"
  shows "(o' \<in> set [''+'', ''-'', ''*'', ''/'', ''%''] \<longrightarrow>
            evaluate M (20 + k) (v @ o' @ w) g
              = Inr (NaN, g\<lparr>g_output_fmt := FMT_DEC,
                             stderr := stderr g @ [''undefined: '' @ v @ [newline]] @ mw\<rparr>)
          \<and> evaluate M (20 + k) (w @ o' @ v) g
              = Inr (NaN, g\<lparr>g_output_fmt := FMT_DEC,
                             stderr := stderr g @ mw @ [''undefined: '' @ v @ [newline]]\<rparr>))
    \<and> (o' \<in> set [''^'', ''**''] \<longrightarrow>
            evaluate M (20 + k) (v @ o' @ w) g
              = Inr (if is_zero y then Fin False 1 else NaN,
                     g\<lparr>g_output_fmt := FMT_DEC,
                       stderr := stderr g @ [''undefined: '' @ v @ [newline]] @ mw\<rparr>)
          \<and> evaluate M (20 + k) (w @ o' @ v) g
              = Inr (if y = Fin False 1 then Fin False 1 else NaN,
                     g\<lparr>g_output_fmt := FMT_DEC,
                       stderr := stderr g @ mw @ [''undefined: '' @ v @ [newline]]\<rparr>))
    \<and> (o' \<in> set [''&'', ''|'', ''<<'', ''>>''] \<longrightarrow>
            evaluate M (20 + k) (v @ o' @ w) g = Inl Undefined_Conversion
          \<and> evaluate M (20 + k) (w @ o' @ v) g = Inl Undefined_Conversion)
    \<and> evaluate M (20 + k) (v @ '' + 1'') g
        = Inr (NaN, g\<lparr>g_output_fmt := FMT_DEC,
                       stderr := stderr g @ [''undefined: '' @ v @ [newline]]\<rparr>)
    \<and> evaluate M (20 + k) ''nosuch(1) * 2'' g
        = Inr (NaN, g\<lparr>g_output_fmt := FMT_DEC,
                       stderr := stderr g @ [''unknown function: nosuch'' @ [newline]]\<rparr>)
    \<and> evaluate M (20 + k) ''2 - (1 + )'' g
        = Inr (NaN, g\<lparr>g_output_fmt := FMT_DEC, stderr := stderr g @ [''syntax error'' @ [newline]]\<rparr>)
    \<and> dadd NaN b = NaN \<and> dadd a NaN = NaN \<and> dsub NaN b = NaN \<and> dsub a NaN = NaN
    \<and> dmul NaN b = NaN \<and> dmul a NaN = NaN \<and> ddiv NaN b = NaN \<and> ddiv a NaN = NaN
    \<and> fmod NaN b = NaN \<and> fmod a NaN = NaN
    \<and> dpow M NaN b = (if is_zero b then Fin False 1 else NaN)
    \<and> dpow M a NaN = (if a = Fin False 1 then Fin False 1 else NaN)
    \<and> on_uint64 f NaN b = Inl Undefined_Conversion \<and> on_uint64 f a NaN = Inl Undefined_Conversion
    \<and> shift_op l NaN b = Inl Undefined_Conversion \<and> shift_op l a NaN = Inl Undefined_Conversion
    \<and> on_uint64 f a b \<noteq> Inr NaN \<and> shift_op l a b \<noteq> Inr NaN"
proof -
  note u = get_var_undefined [OF assms(2)]
  have l: "evaluate M (20 + k) (v @ o' @ w) g
       = (case apply_operator M o' NaN y of
            Inl e \<Rightarrow> Inl e
          | Inr r \<Rightarrow> Inr (r, g\<lparr>g_output_fmt := FMT_DEC,
                                 stderr := stderr g @ [''undefined: '' @ v @ [newline]] @ mw\<rparr>))"
    if "o' \<in> set binary_operators" for o'
    using evaluate_two_identifiers [OF that assms(1,3) u assms(4)] .
  have r: "evaluate M (20 + k) (w @ o' @ v) g
       = (case apply_operator M o' y NaN of
            Inl e \<Rightarrow> Inl e
          | Inr r \<Rightarrow> Inr (r, g\<lparr>g_output_fmt := FMT_DEC,
                                 stderr := stderr g @ mw @ [''undefined: '' @ v @ [newline]]\<rparr>))"
    if "o' \<in> set binary_operators" for o'
    using evaluate_two_identifiers [OF that assms(3,1) assms(4) u] .
  have 1: "o' \<in> set [''+'', ''-'', ''*'', ''/'', ''%''] \<longrightarrow>
            evaluate M (20 + k) (v @ o' @ w) g
              = Inr (NaN, g\<lparr>g_output_fmt := FMT_DEC,
                             stderr := stderr g @ [''undefined: '' @ v @ [newline]] @ mw\<rparr>)
          \<and> evaluate M (20 + k) (w @ o' @ v) g
              = Inr (NaN, g\<lparr>g_output_fmt := FMT_DEC,
                             stderr := stderr g @ mw @ [''undefined: '' @ v @ [newline]]\<rparr>)"
  proof (intro impI)
    assume "o' \<in> set [''+'', ''-'', ''*'', ''/'', ''%'']"
    then have m: "o' \<in> set binary_operators"
      and a: "apply_operator M o' NaN y = Inr NaN" "apply_operator M o' y NaN = Inr NaN"
      by (auto simp: binary_operators_def apply_operator_def dsub_def)
    show "evaluate M (20 + k) (v @ o' @ w) g
              = Inr (NaN, g\<lparr>g_output_fmt := FMT_DEC,
                             stderr := stderr g @ [''undefined: '' @ v @ [newline]] @ mw\<rparr>)
          \<and> evaluate M (20 + k) (w @ o' @ v) g
              = Inr (NaN, g\<lparr>g_output_fmt := FMT_DEC,
                             stderr := stderr g @ mw @ [''undefined: '' @ v @ [newline]]\<rparr>)"
      unfolding l [OF m] r [OF m] a by simp
  qed
  have 2: "o' \<in> set [''^'', ''**''] \<longrightarrow>
            evaluate M (20 + k) (v @ o' @ w) g
              = Inr (if is_zero y then Fin False 1 else NaN,
                     g\<lparr>g_output_fmt := FMT_DEC,
                       stderr := stderr g @ [''undefined: '' @ v @ [newline]] @ mw\<rparr>)
          \<and> evaluate M (20 + k) (w @ o' @ v) g
              = Inr (if y = Fin False 1 then Fin False 1 else NaN,
                     g\<lparr>g_output_fmt := FMT_DEC,
                       stderr := stderr g @ mw @ [''undefined: '' @ v @ [newline]]\<rparr>)"
  proof (intro impI)
    assume "o' \<in> set [''^'', ''**'']"
    then have m: "o' \<in> set binary_operators"
      and a: "apply_operator M o' NaN y = Inr (if is_zero y then Fin False 1 else NaN)"
        "apply_operator M o' y NaN = Inr (if y = Fin False 1 then Fin False 1 else NaN)"
      by (auto simp: binary_operators_def apply_operator_def dpow_NaN_left dpow_NaN_right)
    show "evaluate M (20 + k) (v @ o' @ w) g
              = Inr (if is_zero y then Fin False 1 else NaN,
                     g\<lparr>g_output_fmt := FMT_DEC,
                       stderr := stderr g @ [''undefined: '' @ v @ [newline]] @ mw\<rparr>)
          \<and> evaluate M (20 + k) (w @ o' @ v) g
              = Inr (if y = Fin False 1 then Fin False 1 else NaN,
                     g\<lparr>g_output_fmt := FMT_DEC,
                       stderr := stderr g @ mw @ [''undefined: '' @ v @ [newline]]\<rparr>)"
      unfolding l [OF m] r [OF m] a by simp
  qed
  have 3: "o' \<in> set [''&'', ''|'', ''<<'', ''>>''] \<longrightarrow>
            evaluate M (20 + k) (v @ o' @ w) g = Inl Undefined_Conversion
          \<and> evaluate M (20 + k) (w @ o' @ v) g = Inl Undefined_Conversion"
  proof (intro impI)
    assume "o' \<in> set [''&'', ''|'', ''<<'', ''>>'']"
    then have m: "o' \<in> set binary_operators"
      and a: "apply_operator M o' NaN y = Inl Undefined_Conversion"
        "apply_operator M o' y NaN = Inl Undefined_Conversion"
      by (auto simp: binary_operators_def apply_operator_def on_uint64_NaN_left
          on_uint64_NaN_right shift_op_NaN_left shift_op_NaN_right)
    show "evaluate M (20 + k) (v @ o' @ w) g = Inl Undefined_Conversion
          \<and> evaluate M (20 + k) (w @ o' @ v) g = Inl Undefined_Conversion"
      unfolding l [OF m] r [OF m] a by simp
  qed
  have "evaluate M 20 ''nosuch(1) * 2'' g
        = Inr (NaN, g\<lparr>g_output_fmt := FMT_DEC,
                       stderr := stderr g @ [''unknown function: nosuch'' @ [newline]]\<rparr>)"
    by (simp add: lexer_eval double_eval parser_eval parse_numeral call_func_def libm_names_def
        cong: weak_congs)
  note 7 = evaluate_mono [OF this, where k = k]
  have "evaluate M 20 ''2 - (1 + )'' g
        = Inr (NaN, g\<lparr>g_output_fmt := FMT_DEC, stderr := stderr g @ [''syntax error'' @ [newline]]\<rparr>)"
    by (simp add: lexer_eval double_eval parser_eval parse_numeral cong: weak_congs)
  note 8 = evaluate_mono [OF this, where k = k]
  note 4 = evaluate_mono [OF undefined_plus_one [OF assms(1,2)], where k = k]
  have 5: "dadd NaN b = NaN \<and> dadd a NaN = NaN \<and> dsub NaN b = NaN \<and> dsub a NaN = NaN
    \<and> dmul NaN b = NaN \<and> dmul a NaN = NaN \<and> ddiv NaN b = NaN \<and> ddiv a NaN = NaN
    \<and> fmod NaN b = NaN \<and> fmod a NaN = NaN"
    by (simp add: dsub_def)
  note 6 = dpow_NaN_left [of M b] dpow_NaN_right [of M a] on_uint64_NaN_left [of f b]
    on_uint64_NaN_right [of f a] shift_op_NaN_left [of l b] shift_op_NaN_right [of l a]
    on_uint64_not_NaN [of f a b] shift_op_not_NaN [of l a b]
  show ?thesis
    using 1 2 3 4 5 6 7 8 by blast
qed


theorem nan_propagation_witness:
  "valid_ident ''v'' \<and> valid_ident ''w''
   \<and> undefined_name [(''w'', Fin False 2)] ''v''
   \<and> get_var [(''w'', Fin False 2)] ''w'' = (Fin False 2, [])
   \<and> ''*'' \<in> set [''+'', ''-'', ''*'', ''/'', ''%''] \<and> ''^'' \<in> set [''^'', ''**'']
   \<and> ''|'' \<in> set [''&'', ''|'', ''<<'', ''>>'']
   \<and> evaluate (\<lambda>name args. NaN) 20 ''v*w''
        \<lparr>g_output_fmt = FMT_HEX, stderr = [], vars = [(''w'', Fin False 2)], stdout = []\<rparr>
      = Inr (NaN, \<lparr>g_output_fmt = FMT_DEC, stderr = [''undefined: v'' @ [newline]],
                   vars = [(''w'', Fin False 2)], stdout = []\<rparr>)
   \<and> evaluate (\<lambda>name args. NaN) 20 ''w*v''
        \<lparr>g_output_fmt = FMT_HEX, stderr = [], vars = [(''w'', Fin False 2)], stdout = []\<rparr>
      = Inr (NaN, \<lparr>g_output_fmt = FMT_DEC, stderr = [''undefined: v'' @ [newline]],
                   vars = [(''w'', Fin False 2)], stdout = []\<rparr>)
   \<and> evaluate (\<lambda>name args. NaN) 20 ''v^w''
        \<lparr>g_output_fmt = FMT_HEX, stderr = [], vars = [(''w'', Fin False 2)], stdout = []\<rparr>
      = Inr (NaN, \<lparr>g_output_fmt = FMT_DEC, stderr = [''undefined: v'' @ [newline]],
                   vars = [(''w'', Fin False 2)], stdout = []\<rparr>)
   \<and> evaluate (\<lambda>name args. NaN) 20 ''w|v''
        \<lparr>g_output_fmt = FMT_HEX, stderr = [], vars = [(''w'', Fin False 2)], stdout = []\<rparr>
      = Inl Undefined_Conversion
   \<and> evaluate (\<lambda>name args. NaN) 20 ''v + 1''
        \<lparr>g_output_fmt = FMT_HEX, stderr = [], vars = [(''w'', Fin False 2)], stdout = []\<rparr>
      = Inr (NaN, \<lparr>g_output_fmt = FMT_DEC, stderr = [''undefined: v'' @ [newline]],
                   vars = [(''w'', Fin False 2)], stdout = []\<rparr>)"
proof -
  let ?M = "\<lambda>name args. NaN"
  let ?g = "\<lparr>g_output_fmt = FMT_HEX, stderr = [], vars = [(''w'', Fin False 2)], stdout = []\<rparr>"
  have h: "valid_ident ''v''" "undefined_name (vars ?g) ''v''" "valid_ident ''w''"
    "get_var (vars ?g) ''w'' = (Fin False 2, [])"
    by (simp_all add: valid_ident_def undefined_name_def builtin_names_def get_var_def lexer_eval
        is_ident_char_def MAX_NAME_def)
  have z: "\<not> is_zero (Fin False 2)"
    by simp
  show ?thesis
    using h z
      nan_propagation [OF h, where o' = "''*''" and M = ?M and k = 0]
      nan_propagation [OF h, where o' = "''^''" and M = ?M and k = 0]
      nan_propagation [OF h, where o' = "''|''" and M = ?M and k = 0]
    by simp
qed

section \<open>Prefixes without digits\<close>

text \<open>
  The claim C4 as stated fails: after \<^verbatim>\<open>0x\<close> or \<^verbatim>\<open>0o\<close> without a digit \<^verbatim>\<open>parse_number\<close> returns
  false, while the decimal parse at the same position would read the number 0 and stop
  before the letter.
\<close>

theorem prefix_without_digits_counterexample:
  "parse_number ''0x'' = None \<and> parse_number_decimal ''0x'' = Some (Fin False 0, ''x'')
   \<and> parse_number ''0o'' = None \<and> parse_number_decimal ''0o'' = Some (Fin False 0, ''o'')"
  by (simp add: lexer_eval double_eval)

text \<open>The binary prefix has no such check: \<^verbatim>\<open>0b\<close> alone is the number 0.\<close>

lemma binary_prefix_without_digits: "parse_number ''0b'' = Some (Fin False 0, [])"
  by (simp add: lexer_eval double_eval)

text \<open>
  C4, as the code has it. When \<^verbatim>\<open>0x\<close>, \<^verbatim>\<open>0X\<close>, \<^verbatim>\<open>0o\<close> or \<^verbatim>\<open>0O\<close> is followed by text in which
  \<^verbatim>\<open>strtoull\<close> converts no digit, \<^verbatim>\<open>parse_number\<close> restores the cursor and returns false
  without trying the decimal parse; \<^verbatim>\<open>next_token\<close> then yields an error token and consumes
  the \<^verbatim>\<open>0\<close> only.
\<close>

theorem prefix_without_digits:
  assumes "((c = CHR ''x'' \<or> c = CHR ''X'') \<and> strtoull rest 16 = None)
         \<or> ((c = CHR ''o'' \<or> c = CHR ''O'') \<and> strtoull rest 8 = None)"
  shows "parse_number (CHR ''0'' # c # rest) = None
       \<and> next_token \<lparr>g_output_fmt = f, stderr = e, pos = CHR ''0'' # c # rest, cur = t\<rparr>
         = \<lparr>g_output_fmt = f, stderr = e, pos = c # rest, cur = TOK_ERR\<rparr>"
proof -
  have pn: "parse_number (CHR ''0'' # c # rest) = None"
    using assms by (auto simp: parse_number_def NUL_def)
  show ?thesis
    by (simp add: pn next_token_Cons skip_ws_def isspace_def isalpha_def code_def NUL_def
        operator_token_def)
qed

theorem prefix_without_digits_witness:
  "strtoull ''g'' 16 = None
   \<and> parse_number ''0xg'' = None
   \<and> next_token \<lparr>g_output_fmt = FMT_DEC, stderr = [], pos = ''0xg'', cur = TOK_END\<rparr>
     = \<lparr>g_output_fmt = FMT_DEC, stderr = [], pos = ''xg'', cur = TOK_ERR\<rparr>"
proof -
  have h: "strtoull ''g'' 16 = None"
    by (simp add: lexer_eval)
  show ?thesis
    using h prefix_without_digits [where c = "CHR ''x''" and rest = "''g''" and f = FMT_DEC
        and e = "[]" and t = TOK_END]
    by simp
qed

section \<open>Shift counts\<close>

lemma to_int_fault: "to_int x = Inl e \<Longrightarrow> e = Undefined_Conversion"
  by (auto simp: to_int_def split: option.splits if_splits)

text \<open>
  The claim C5 as stated fails: nothing guards the shift count. A count of 64, or a negative
  one, reaches the native shift, whose behaviour C leaves undefined (the fault
  \<open>Undefined_Shift\<close> of the model), through the operators and through \<^verbatim>\<open>shl\<close> and \<^verbatim>\<open>shr\<close> alike.
  Nor is a count from 0 to 63 enough for the shift of the truncated left operand: a negative
  left operand, or one of \<open>2^64\<close> or more, does not convert to \<^verbatim>\<open>uint64_t\<close> (the fault
  \<open>Undefined_Conversion\<close>), and a count beyond the range of \<^verbatim>\<open>int\<close> does not convert either.
\<close>

theorem shift_count_counterexample:
  "evaluate (\<lambda>name args. NaN) 20 ''1<<64'' \<lparr>g_output_fmt = FMT_DEC, stderr = [], vars = [], stdout = []\<rparr>
     = Inl Undefined_Shift
   \<and> evaluate (\<lambda>name args. NaN) 20 ''1>>-1'' \<lparr>g_output_fmt = FMT_DEC, stderr = [], vars = [], stdout = []\<rparr>
     = Inl Undefined_Shift
   \<and> evaluate (\<lambda>name args. NaN) 20 ''shl(1,64)'' \<lparr>g_output_fmt = FMT_DEC, stderr = [], vars = [], stdout = []\<rparr>
     = Inl Undefined_Shift
   \<and> evaluate (\<lambda>name args. NaN) 20 ''shr(1,-1)'' \<lparr>g_output_fmt = FMT_DEC, stderr = [], vars = [], stdout = []\<rparr>
     = Inl Undefined_Shift
   \<and> evaluate (\<lambda>name args. NaN) 20 ''-1<<1'' \<lparr>g_output_fmt = FMT_DEC, stderr = [], vars = [], stdout = []\<rparr>
     = Inl Undefined_Conversion
   \<and> evaluate (\<lambda>name args. NaN) 20 ''1e20>>1'' \<lparr>g_output_fmt = FMT_DEC, stderr = [], vars = [], stdout = []\<rparr>
     = Inl Undefined_Conversion
   \<and> evaluate (\<lambda>name args. NaN) 20 ''shl(-1,1)'' \<lparr>g_output_fmt = FMT_DEC, stderr = [], vars = [], stdout = []\<rparr>
     = Inl Undefined_Conversion
   \<and> evaluate (\<lambda>name args. NaN) 20 ''1<<1e10'' \<lparr>g_output_fmt = FMT_DEC, stderr = [], vars = [], stdout = []\<rparr>
     = Inl Undefined_Conversion"
  by (simp add: lexer_eval double_eval parser_eval parse_numeral cong: weak_congs)

text \<open>
  C5, as the code has it. When the left operand converts to \<^verbatim>\<open>uint64_t\<close> and the count to an
  \<^verbatim>\<open>int\<close> from 0 to 63, the operators \<^verbatim>\<open><<\<close> and \<^verbatim>\<open>>>\<close> (one iteration of the loop of
  \<^verbatim>\<open>parse_shift\<close>, and the evaluation of \<^verbatim>\<open>a<<b\<close> and \<^verbatim>\<open>a>>b\<close> for identifiers that stand for the
  operands) and the functions \<^verbatim>\<open>shl\<close> and \<^verbatim>\<open>shr\<close> yield the unsigned 64-bit shift of the
  truncated left operand, converted back to double. A count below 0 or above 63 is passed
  to the native shift unguarded: the behaviour is undefined. When the left operand does not
  convert to \<^verbatim>\<open>uint64_t\<close>, or the count does not convert to \<^verbatim>\<open>int\<close>, the conversion is undefined.
\<close>

theorem shift_in_range:
  "(to_uint64 a = Inr l \<and> to_int b = Inr r \<and> 0 \<le> r \<and> r < 64 \<longrightarrow>
       shift_op True a b = Inr (of_uint64 (push_bit (nat r) l))
     \<and> shift_op False a b = Inr (of_uint64 (drop_bit (nat r) l))
     \<and> call_func2 M ''shl'' a b = Inr (of_uint64 (push_bit (nat r) l))
     \<and> call_func2 M ''shr'' a b = Inr (of_uint64 (drop_bit (nat r) l))
     \<and> (cur p = TOK_OP (CHR ''L'') \<and> parse_additive M vs n (next_token p) = Inr (b, p1) \<longrightarrow>
          parse M vs (Suc n) (Shift_Loop a) p
            = parse M vs n (Shift_Loop (of_uint64 (push_bit (nat r) l))) p1)
     \<and> (cur p = TOK_OP (CHR ''R'') \<and> parse_additive M vs n (next_token p) = Inr (b, p1) \<longrightarrow>
          parse M vs (Suc n) (Shift_Loop a) p
            = parse M vs n (Shift_Loop (of_uint64 (drop_bit (nat r) l))) p1)
     \<and> (valid_ident va \<and> valid_ident vb
          \<and> get_var (vars g) va = (a, ma) \<and> get_var (vars g) vb = (b, mb) \<longrightarrow>
          evaluate M (20 + k) (va @ ''<<'' @ vb) g
            = Inr (of_uint64 (push_bit (nat r) l),
                   g\<lparr>g_output_fmt := FMT_DEC, stderr := stderr g @ ma @ mb\<rparr>)
        \<and> evaluate M (20 + k) (va @ ''>>'' @ vb) g
            = Inr (of_uint64 (drop_bit (nat r) l),
                   g\<lparr>g_output_fmt := FMT_DEC, stderr := stderr g @ ma @ mb\<rparr>)))
   \<and> (to_uint64 a = Inr l \<and> to_int b = Inr r \<and> (r < 0 \<or> 64 \<le> r) \<longrightarrow>
       shift_op d a b = Inl Undefined_Shift
     \<and> call_func2 M ''shl'' a b = Inl Undefined_Shift
     \<and> call_func2 M ''shr'' a b = Inl Undefined_Shift)
   \<and> (to_uint64 a = Inl e \<or> to_int b = Inl e \<longrightarrow>
       shift_op d a b = Inl Undefined_Conversion
     \<and> call_func2 M ''shl'' a b = Inl Undefined_Conversion
     \<and> call_func2 M ''shr'' a b = Inl Undefined_Conversion)"
proof -
  have 1: "shift_op True a b = Inr (of_uint64 (push_bit (nat r) l))
     \<and> shift_op False a b = Inr (of_uint64 (drop_bit (nat r) l))
     \<and> call_func2 M ''shl'' a b = Inr (of_uint64 (push_bit (nat r) l))
     \<and> call_func2 M ''shr'' a b = Inr (of_uint64 (drop_bit (nat r) l))"
    if "to_uint64 a = Inr l" "to_int b = Inr r" "0 \<le> r" "r < 64"
    using that by (simp add: shift_op_def shift_left_def shift_right_def call_func2_def)
  have 2: "parse M vs (Suc n) (Shift_Loop a) p
            = parse M vs n (Shift_Loop (of_uint64 (push_bit (nat r) l))) p1"
    if "shift_op True a b = Inr (of_uint64 (push_bit (nat r) l))"
      "cur p = TOK_OP (CHR ''L'')" "parse_additive M vs n (next_token p) = Inr (b, p1)"
    using that by simp
  have 3: "parse M vs (Suc n) (Shift_Loop a) p
            = parse M vs n (Shift_Loop (of_uint64 (drop_bit (nat r) l))) p1"
    if "shift_op False a b = Inr (of_uint64 (drop_bit (nat r) l))"
      "cur p = TOK_OP (CHR ''R'')" "parse_additive M vs n (next_token p) = Inr (b, p1)"
    using that by simp
  have 4: "evaluate M (20 + k) (va @ ''<<'' @ vb) g
            = Inr (of_uint64 (push_bit (nat r) l),
                   g\<lparr>g_output_fmt := FMT_DEC, stderr := stderr g @ ma @ mb\<rparr>)
        \<and> evaluate M (20 + k) (va @ ''>>'' @ vb) g
            = Inr (of_uint64 (drop_bit (nat r) l),
                   g\<lparr>g_output_fmt := FMT_DEC, stderr := stderr g @ ma @ mb\<rparr>)"
    if s: "shift_op True a b = Inr (of_uint64 (push_bit (nat r) l))"
      "shift_op False a b = Inr (of_uint64 (drop_bit (nat r) l))"
      and v: "valid_ident va" "valid_ident vb"
      and g: "get_var (vars g) va = (a, ma)" "get_var (vars g) vb = (b, mb)"
  proof -
    have m: "''<<'' \<in> set binary_operators" "''>>'' \<in> set binary_operators"
      by (simp_all add: binary_operators_def)
    have a: "apply_operator M ''<<'' a b = Inr (of_uint64 (push_bit (nat r) l))"
      "apply_operator M ''>>'' a b = Inr (of_uint64 (drop_bit (nat r) l))"
      using s by (simp_all add: apply_operator_def)
    show ?thesis
      unfolding evaluate_two_identifiers [OF m(1) v g] evaluate_two_identifiers [OF m(2) v g] a
      by simp
  qed
  have 5: "shift_op d a b = Inl Undefined_Shift
     \<and> call_func2 M ''shl'' a b = Inl Undefined_Shift
     \<and> call_func2 M ''shr'' a b = Inl Undefined_Shift"
    if "to_uint64 a = Inr l" "to_int b = Inr r" "r < 0 \<or> 64 \<le> r"
    using that by (auto simp: shift_op_def shift_left_def shift_right_def call_func2_def)
  have 6: "shift_op d a b = Inl Undefined_Conversion
     \<and> call_func2 M ''shl'' a b = Inl Undefined_Conversion
     \<and> call_func2 M ''shr'' a b = Inl Undefined_Conversion"
    if "to_uint64 a = Inl e \<or> to_int b = Inl e"
    using that to_uint64_fault [of a] to_int_fault [of b]
    by (auto simp: shift_op_def call_func2_def split: sum.split)
  show ?thesis
    using 1 2 3 4 5 6 by blast
qed

theorem shift_in_range_witness:
  "to_uint64 (Fin False 1) = Inr 1 \<and> to_int (Fin False 3) = Inr 3 \<and> (0::int) \<le> 3 \<and> (3::int) < 64
   \<and> to_int (Fin False 64) = Inr 64 \<and> to_uint64 (Fin True 1) = Inl Undefined_Conversion
   \<and> valid_ident ''a'' \<and> valid_ident ''b''
   \<and> get_var [(''a'', Fin False 1), (''b'', Fin False 3)] ''a'' = (Fin False 1, [])
   \<and> get_var [(''a'', Fin False 1), (''b'', Fin False 3)] ''b'' = (Fin False 3, [])
   \<and> shift_op True (Fin False 1) (Fin False 3) = Inr (Fin False 8)
   \<and> call_func2 (\<lambda>name args. NaN) ''shr'' (Fin False 1) (Fin False 3) = Inr (Fin False 0)
   \<and> parse (\<lambda>name args. NaN) [] (Suc 10) (Shift_Loop (Fin False 1))
        \<lparr>g_output_fmt = FMT_DEC, stderr = [], pos = ''3'', cur = TOK_OP (CHR ''L'')\<rparr>
      = Inr (Fin False 8, \<lparr>g_output_fmt = FMT_DEC, stderr = [], pos = [], cur = TOK_END\<rparr>)
   \<and> evaluate (\<lambda>name args. NaN) 20 ''a<<b''
        \<lparr>g_output_fmt = FMT_HEX, stderr = [], vars = [(''a'', Fin False 1), (''b'', Fin False 3)],
         stdout = []\<rparr>
      = Inr (Fin False 8, \<lparr>g_output_fmt = FMT_DEC, stderr = [],
         vars = [(''a'', Fin False 1), (''b'', Fin False 3)], stdout = []\<rparr>)
   \<and> shift_op True (Fin False 1) (Fin False 64) = Inl Undefined_Shift
   \<and> shift_op False (Fin True 1) (Fin False 3) = Inl Undefined_Conversion"
proof -
  let ?M = "\<lambda>name args. NaN"
  let ?p = "\<lparr>g_output_fmt = FMT_DEC, stderr = [], pos = ''3'', cur = TOK_OP (CHR ''L'')\<rparr>"
  let ?p1 = "\<lparr>g_output_fmt = FMT_DEC, stderr = [], pos = [], cur = TOK_END\<rparr>"
  let ?g = "\<lparr>g_output_fmt = FMT_HEX, stderr = [], vars = [(''a'', Fin False 1), (''b'', Fin False 3)],
         stdout = []\<rparr>"
  have h: "to_uint64 (Fin False 1) = Inr 1" "to_int (Fin False 3) = Inr 3" "(0::int) \<le> 3" "(3::int) < 64"
    "cur ?p = TOK_OP (CHR ''L'')" "parse_additive ?M [] 10 (next_token ?p) = Inr (Fin False 3, ?p1)"
    "to_int (Fin False 64) = Inr 64" "to_uint64 (Fin True 1) = Inl Undefined_Conversion"
    by (simp_all add: lexer_eval double_eval parser_eval parse_numeral cong: weak_congs)
  have i: "valid_ident ''a''" "valid_ident ''b''"
    "get_var (vars ?g) ''a'' = (Fin False 1, [])" "get_var (vars ?g) ''b'' = (Fin False 3, [])"
    by (simp_all add: valid_ident_def get_var_def lexer_eval is_ident_char_def MAX_NAME_def)
  have e: "of_uint64 (push_bit (nat 3) 1) = Fin False 8" "of_uint64 (drop_bit (nat 3) 1) = Fin False 0"
    by (simp_all add: double_eval)
  have r: "parse ?M [] 10 (Shift_Loop (Fin False 8)) ?p1 = Inr (Fin False 8, ?p1)"
    by (simp add: parse_numeral)
  show ?thesis
    using h i e r
      shift_in_range [where a = "Fin False 1" and l = 1 and b = "Fin False 3" and r = 3
        and M = ?M and p = ?p and ?p1.0 = ?p1 and vs = "[]" and n = 10 and va = "''a''"
        and vb = "''b''" and g = ?g and ma = "[]" and mb = "[]" and k = 0]
      shift_in_range [where a = "Fin False 1" and l = 1 and b = "Fin False 64" and r = 64
        and d = True]
      shift_in_range [where a = "Fin True 1" and b = "Fin False 3" and e = Undefined_Conversion
        and d = False]
    by simp
qed

section \<open>The variable table\<close>

lemma update_var_None: "update_var vs n x = None \<longleftrightarrow> find_var vs n = None"
  by (induction vs) (auto split: if_splits)

lemma find_var_update: "update_var vs n x = Some vs' \<Longrightarrow> find_var vs' n = Some x"
  by (induction vs arbitrary: vs') (auto split: if_splits)

lemma find_var_append:
  "find_var (vs @ ws) n = (case find_var vs n of Some v \<Rightarrow> Some v | None \<Rightarrow> find_var ws n)"
  by (induction vs) auto

lemma find_var_set_var:
  assumes "length n < MAX_NAME" "find_var vs n \<noteq> None \<or> length vs < MAX_VARS"
  shows "find_var (set_var vs n x) n = Some x"
proof (cases "update_var vs n x")
  case None
  then have "find_var vs n = None" by (simp add: update_var_None)
  with assms None show ?thesis
    by (simp add: set_var_def find_var_append)
next
  case (Some vs')
  then show ?thesis
    by (simp add: set_var_def find_var_update)
qed

lemma get_var_found: "find_var vs n = Some v \<Longrightarrow> get_var vs n = (v, [])"
  by (simp add: get_var_def)

lemma set_var_full: "find_var vs n = None \<Longrightarrow> MAX_VARS \<le> length vs \<Longrightarrow> set_var vs n x = vs"
  using update_var_None [of vs n x] by (simp add: set_var_def)

lemma full_table_facts:
  "length full_table = 64 \<and> distinct (map fst full_table) \<and> find_var full_table ''x'' = None
   \<and> find_var full_table ''y'' = None \<and> find_var full_table ''pi'' = None"
  by (simp add: full_table_def)

section \<open>Identifier lookup\<close>

text \<open>\<^verbatim>\<open>get_var\<close> computes the lookup of the specification.\<close>

lemma get_var_lookup: "get_var vs name = lookup_spec vs name"
proof (cases "find_var vs name")
  case (Some v)
  then show ?thesis by (simp add: get_var_def lookup_spec_def)
next
  case None
  show ?thesis
  proof (cases vs)
    case Nil
    then show ?thesis
      by (simp add: get_var_def lookup_spec_def builtin_constants_def)
  next
    case (Cons a list)
    then show ?thesis
      using None by (cases a) (simp add: get_var_def lookup_spec_def builtin_constants_def)
  qed
qed


text \<open>
  The claim C8 as stated fails for the shadowing by assignment: a full table drops the
  binding of a new name, so after \<^verbatim>\<open>pi = 3\<close> the name \<^verbatim>\<open>pi\<close> still yields the built-in constant.
\<close>

theorem identifier_lookup_counterexample:
  "length full_table = 64 \<and> distinct (map fst full_table) \<and> PI \<noteq> Fin False 3
   \<and> evaluate (\<lambda>name args. NaN) 20 ''pi = 3''
        \<lparr>g_output_fmt = FMT_DEC, stderr = [], vars = full_table, stdout = []\<rparr>
      = Inr (Fin False 3, \<lparr>g_output_fmt = FMT_DEC, stderr = [], vars = full_table, stdout = []\<rparr>)
   \<and> evaluate (\<lambda>name args. NaN) 20 ''pi''
        \<lparr>g_output_fmt = FMT_DEC, stderr = [], vars = full_table, stdout = []\<rparr>
      = Inr (PI, \<lparr>g_output_fmt = FMT_DEC, stderr = [], vars = full_table, stdout = []\<rparr>)
   \<and> get_var (set_var full_table ''pi'' (Fin False 3)) ''pi'' = (PI, [])"
proof -
  have s: "set_var full_table ''pi'' (Fin False 3) = full_table"
    using full_table_facts by (simp add: set_var_full MAX_VARS_def)
  have g: "get_var full_table ''pi'' = (PI, [])"
    using full_table_facts by (simp add: get_var_def)
  have a: "evaluate (\<lambda>name args. NaN) 20 ''pi = 3''
        \<lparr>g_output_fmt = FMT_DEC, stderr = [], vars = full_table, stdout = []\<rparr>
      = Inr (Fin False 3, \<lparr>g_output_fmt = FMT_DEC, stderr = [], vars = full_table, stdout = []\<rparr>)"
    by (simp add: s lexer_eval double_eval parser_eval parse_numeral)
  have b: "evaluate (\<lambda>name args. NaN) 20 ''pi''
        \<lparr>g_output_fmt = FMT_DEC, stderr = [], vars = full_table, stdout = []\<rparr>
      = Inr (PI, \<lparr>g_output_fmt = FMT_DEC, stderr = [], vars = full_table, stdout = []\<rparr>)"
    by (simp add: g lexer_eval parser_eval parse_numeral)
  have p: "PI \<noteq> Fin False 3"
    by (simp add: PI_def double_eval)
  show ?thesis
    using full_table_facts s g a b p by simp
qed

text \<open>
  C8, as the code has it. Identifier lookup is the lookup of the specification
  (\<open>lookup_spec\<close>): user bindings first, then the built-in constants, then the virtual \<^verbatim>\<open>ans\<close>,
  which is the value of the first stored binding, or 0 when the table is empty. So a user
  binding is returned whatever its name is, a built-in name that is not bound yields its
  constant, and a name found nowhere yields the NaN sentinel with the diagnostic
  \<^verbatim>\<open>undefined: name\<close>. An assignment shadows a built-in of the same name when the name is
  already bound or the table has room (\<^verbatim>\<open>pi = 3\<close> then \<^verbatim>\<open>pi\<close> yields 3); on a full table the
  binding of a new name is dropped and the lookup is what it was before.
\<close>

theorem identifier_lookup:
  "get_var vs name = lookup_spec vs name
   \<and> (find_var vs n = Some v \<longrightarrow> get_var vs n = (v, []))
   \<and> (find_var vs n = None \<and> map_of builtin_constants n = Some c \<longrightarrow> get_var vs n = (c, []))
   \<and> (find_var vs ''ans'' = None \<longrightarrow>
        get_var vs ''ans'' = (case vs of [] \<Rightarrow> Fin False 0 | (n', v') # _ \<Rightarrow> v', []))
   \<and> get_var [] ''ans'' = (Fin False 0, [])
   \<and> (undefined_name vs u \<longrightarrow> get_var vs u = (NaN, [''undefined: '' @ u @ [newline]]))
   \<and> (length b < MAX_NAME \<and> (find_var vs b \<noteq> None \<or> length vs < MAX_VARS) \<longrightarrow>
        get_var (set_var vs b x) b = (x, []))
   \<and> (find_var vs b = None \<and> MAX_VARS \<le> length vs \<longrightarrow>
        get_var (set_var vs b x) b = get_var vs b)
   \<and> evaluate M (20 + k) ''pi = 3'' g
       = Inr (Fin False 3, g\<lparr>g_output_fmt := FMT_DEC, vars := set_var (vars g) ''pi'' (Fin False 3)\<rparr>)
   \<and> (find_var (vars g) ''pi'' \<noteq> None \<or> length (vars g) < MAX_VARS \<longrightarrow>
        evaluate M (20 + k) ''pi'' (g\<lparr>vars := set_var (vars g) ''pi'' (Fin False 3)\<rparr>)
          = Inr (Fin False 3,
                 g\<lparr>g_output_fmt := FMT_DEC, vars := set_var (vars g) ''pi'' (Fin False 3)\<rparr>))"
proof -
  have 1: "get_var vs n = (c, [])" if "find_var vs n = None" "map_of builtin_constants n = Some c"
    using that by (simp add: get_var_lookup lookup_spec_def)
  have 2: "get_var vs ''ans'' = (case vs of [] \<Rightarrow> Fin False 0 | (n', v') # _ \<Rightarrow> v', [])"
    if "find_var vs ''ans'' = None"
    using that by (simp add: get_var_lookup lookup_spec_def builtin_constants_def)
  have 3: "get_var [] ''ans'' = (Fin False 0, [])"
    by (simp add: get_var_def)
  have 4: "get_var (set_var vs b x) b = (x, [])"
    if "length b < MAX_NAME" "find_var vs b \<noteq> None \<or> length vs < MAX_VARS"
    using that by (simp add: get_var_found find_var_set_var)
  have 5: "get_var (set_var vs b x) b = get_var vs b"
    if "find_var vs b = None" "MAX_VARS \<le> length vs"
    using that by (simp add: set_var_full)
  have "evaluate M 20 ''pi = 3'' g
       = Inr (Fin False 3, g\<lparr>g_output_fmt := FMT_DEC, vars := set_var (vars g) ''pi'' (Fin False 3)\<rparr>)"
    by (simp add: lexer_eval double_eval parser_eval parse_numeral)
  note 6 = evaluate_mono [OF this, of k]
  have 7: "evaluate M (20 + k) ''pi'' (g\<lparr>vars := set_var (vars g) ''pi'' (Fin False 3)\<rparr>)
          = Inr (Fin False 3,
                 g\<lparr>g_output_fmt := FMT_DEC, vars := set_var (vars g) ''pi'' (Fin False 3)\<rparr>)"
    if r: "find_var (vars g) ''pi'' \<noteq> None \<or> length (vars g) < MAX_VARS"
  proof -
    have "length ''pi'' < MAX_NAME"
      by (simp add: MAX_NAME_def)
    from find_var_set_var [OF this r]
    have f: "find_var (set_var (vars g) ''pi'' (Fin False 3)) ''pi'' = Some (Fin False 3)" .
    have "evaluate M 20 ''pi'' (g\<lparr>vars := set_var (vars g) ''pi'' (Fin False 3)\<rparr>)
          = Inr (Fin False 3,
                 g\<lparr>g_output_fmt := FMT_DEC, vars := set_var (vars g) ''pi'' (Fin False 3)\<rparr>)"
      by (simp add: get_var_found [OF f] lexer_eval parser_eval parse_numeral)
    then show ?thesis
      by (rule evaluate_mono)
  qed
  show ?thesis
    using get_var_lookup [of vs name] get_var_found [of vs n v] get_var_undefined [of vs u]
      1 2 3 4 5 6 7
    by blast
qed

theorem identifier_lookup_witness:
  "find_var [(''pi'', Fin False 3)] ''pi'' = Some (Fin False 3)
   \<and> find_var [(''pi'', Fin False 3)] ''kib'' = None \<and> map_of builtin_constants ''kib'' = Some KiB
   \<and> find_var [(''pi'', Fin False 3)] ''ans'' = None
   \<and> undefined_name [(''pi'', Fin False 3)] ''zz''
   \<and> length ''e'' < MAX_NAME \<and> length [(''pi'', Fin False 3)] < MAX_VARS
   \<and> find_var full_table ''pi'' = None \<and> MAX_VARS \<le> length full_table
   \<and> get_var [(''pi'', Fin False 3)] ''pi'' = (Fin False 3, [])
   \<and> get_var [(''pi'', Fin False 3)] ''kib'' = (Fin False 1024, [])
   \<and> get_var [(''pi'', Fin False 3)] ''ans'' = (Fin False 3, [])
   \<and> get_var [] ''ans'' = (Fin False 0, [])
   \<and> get_var [(''pi'', Fin False 3)] ''zz'' = (NaN, [''undefined: zz'' @ [newline]])
   \<and> get_var (set_var [(''pi'', Fin False 3)] ''e'' (Fin False 1)) ''e'' = (Fin False 1, [])
   \<and> get_var (set_var full_table ''pi'' (Fin False 3)) ''pi'' = get_var full_table ''pi''
   \<and> evaluate (\<lambda>name args. NaN) 20 ''pi''
        \<lparr>g_output_fmt = FMT_DEC, stderr = [], vars = [(''pi'', Fin False 3)], stdout = []\<rparr>
      = Inr (Fin False 3,
             \<lparr>g_output_fmt = FMT_DEC, stderr = [], vars = [(''pi'', Fin False 3)], stdout = []\<rparr>)"
proof -
  let ?vs = "[(''pi'', Fin False 3)]"
  let ?g = "\<lparr>g_output_fmt = FMT_DEC, stderr = [], vars = [], stdout = []\<rparr>"
  have h: "find_var ?vs ''pi'' = Some (Fin False 3)"
    "find_var ?vs ''kib'' = None" "map_of builtin_constants ''kib'' = Some KiB"
    "find_var ?vs ''ans'' = None" "undefined_name ?vs ''zz''" "length ''e'' < MAX_NAME"
    "length ?vs < MAX_VARS" "find_var full_table ''pi'' = None" "MAX_VARS \<le> length full_table"
    "length (vars ?g) < MAX_VARS"
    using full_table_facts
    by (simp_all add: undefined_name_def builtin_names_def builtin_constants_def MAX_NAME_def
        MAX_VARS_def)
  have e: "KiB = Fin False 1024" "''undefined: '' @ ''zz'' @ [newline] = ''undefined: zz'' @ [newline]"
    "set_var [] ''pi'' (Fin False 3) = ?vs"
    by (simp_all add: KiB_def set_var_def MAX_VARS_def MAX_NAME_def)
  note t = identifier_lookup [where vs = ?vs and name = "''pi''" and n = "''pi''"
        and v = "Fin False 3" and c = KiB and u = "''zz''" and b = "''e''" and x = "Fin False 1"
        and M = "\<lambda>name args. NaN" and k = 0 and g = ?g]
    identifier_lookup [where vs = ?vs and name = "''pi''" and n = "''kib''"
        and v = "Fin False 3" and c = KiB and u = "''zz''" and b = "''e''" and x = "Fin False 1"
        and M = "\<lambda>name args. NaN" and k = 0 and g = ?g]
    identifier_lookup [where vs = full_table and name = "''pi''" and n = "''pi''"
        and v = "Fin False 3" and c = KiB and u = "''zz''" and b = "''pi''" and x = "Fin False 3"
        and M = "\<lambda>name args. NaN" and k = 0 and g = ?g]
  show ?thesis
    using h e t by simp
qed

section \<open>Format selectors\<close>

text \<open>
  C6. Every evaluation resets the output format first: its result does not depend on the
  format the previous evaluation left. Each of the selectors \<^verbatim>\<open>hex\<close>, \<^verbatim>\<open>bin\<close>, \<^verbatim>\<open>oct\<close> and
  \<^verbatim>\<open>dec\<close> returns its argument unchanged and sets the format. So the line \<^verbatim>\<open>hex(255)\<close> prints
  \<^verbatim>\<open>0xFF\<close>, and the line \<^verbatim>\<open>1+1\<close> prints \<^verbatim>\<open>2\<close> in any state, in particular in the state the line
  \<^verbatim>\<open>hex(255)\<close> leaves.
\<close>

theorem format_selectors:
  "evaluate M n input (g\<lparr>g_output_fmt := fmt\<rparr>) = evaluate M n input g
   \<and> call_func M ''hex'' arg p = Inr (arg, p\<lparr>g_output_fmt := FMT_HEX\<rparr>)
   \<and> call_func M ''bin'' arg p = Inr (arg, p\<lparr>g_output_fmt := FMT_BIN\<rparr>)
   \<and> call_func M ''oct'' arg p = Inr (arg, p\<lparr>g_output_fmt := FMT_OCT\<rparr>)
   \<and> call_func M ''dec'' arg p = Inr (arg, p\<lparr>g_output_fmt := FMT_DEC\<rparr>)
   \<and> repl_line M (20 + k) ''hex(255)'' g
      = Inr (g\<lparr>g_output_fmt := FMT_HEX, vars := set_var (vars g) ''ans'' (Fin False 255),
               stdout := stdout g @ [''0xFF'' @ [newline]]\<rparr>)
   \<and> repl_line M (20 + k) ''1+1'' g
      = Inr (g\<lparr>g_output_fmt := FMT_DEC, vars := set_var (vars g) ''ans'' (Fin False 2),
               stdout := stdout g @ [''2'' @ [newline]]\<rparr>)
   \<and> repl_line M (20 + k) ''1+1''
        (g\<lparr>g_output_fmt := FMT_HEX, vars := set_var (vars g) ''ans'' (Fin False 255),
           stdout := stdout g @ [''0xFF'' @ [newline]]\<rparr>)
      = Inr (g\<lparr>g_output_fmt := FMT_DEC,
               vars := set_var (set_var (vars g) ''ans'' (Fin False 255)) ''ans'' (Fin False 2),
               stdout := stdout g @ [''0xFF'' @ [newline], ''2'' @ [newline]]\<rparr>)"
proof -
  have 1: "evaluate M n input (g\<lparr>g_output_fmt := fmt\<rparr>) = evaluate M n input g"
    by (simp add: evaluate_def Let_def split: Token.split sum.split prod.split)
  have 2: "call_func M ''hex'' arg p = Inr (arg, p\<lparr>g_output_fmt := FMT_HEX\<rparr>)"
    "call_func M ''bin'' arg p = Inr (arg, p\<lparr>g_output_fmt := FMT_BIN\<rparr>)"
    "call_func M ''oct'' arg p = Inr (arg, p\<lparr>g_output_fmt := FMT_OCT\<rparr>)"
    "call_func M ''dec'' arg p = Inr (arg, p\<lparr>g_output_fmt := FMT_DEC\<rparr>)"
    by (simp_all add: call_func_def libm_names_def)
  have "repl_line M 20 ''hex(255)'' g
      = Inr (g\<lparr>g_output_fmt := FMT_HEX, vars := set_var (vars g) ''ans'' (Fin False 255),
               stdout := stdout g @ [''0xFF'' @ [newline]]\<rparr>)"
    by (simp add: print_eval lexer_eval double_eval parser_eval parse_numeral)
  then have 3: "repl_line M (20 + k) ''hex(255)'' g
      = Inr (g\<lparr>g_output_fmt := FMT_HEX, vars := set_var (vars g) ''ans'' (Fin False 255),
               stdout := stdout g @ [''0xFF'' @ [newline]]\<rparr>)"
    by (rule repl_line_mono)
  have "repl_line M 20 ''1+1'' g
      = Inr (g\<lparr>g_output_fmt := FMT_DEC, vars := set_var (vars g) ''ans'' (Fin False 2),
               stdout := stdout g @ [''2'' @ [newline]]\<rparr>)" for g
    by (simp add: print_eval lexer_eval double_eval parser_eval parse_numeral)
  then have 4: "repl_line M (20 + k) ''1+1'' g
      = Inr (g\<lparr>g_output_fmt := FMT_DEC, vars := set_var (vars g) ''ans'' (Fin False 2),
               stdout := stdout g @ [''2'' @ [newline]]\<rparr>)" for g
    by (rule repl_line_mono)
  have 5: "repl_line M (20 + k) ''1+1''
        (g\<lparr>g_output_fmt := FMT_HEX, vars := set_var (vars g) ''ans'' (Fin False 255),
           stdout := stdout g @ [''0xFF'' @ [newline]]\<rparr>)
      = Inr (g\<lparr>g_output_fmt := FMT_DEC,
               vars := set_var (set_var (vars g) ''ans'' (Fin False 255)) ''ans'' (Fin False 2),
               stdout := stdout g @ [''0xFF'' @ [newline], ''2'' @ [newline]]\<rparr>)"
    if "\<And>g. repl_line M (20 + k) ''1+1'' g
      = Inr (g\<lparr>g_output_fmt := FMT_DEC, vars := set_var (vars g) ''ans'' (Fin False 2),
               stdout := stdout g @ [''2'' @ [newline]]\<rparr>)"
    by (simp add: that)
  show ?thesis
    using 1 2 3 4 5 [OF 4] by simp
qed

section \<open>Unique names\<close>

lemma find_var_None_iff: "find_var vs n = None \<longleftrightarrow> n \<notin> fst ` set vs"
  by (induction vs) (auto split: if_splits)

lemma update_var_names: "update_var vs n x = Some vs' \<Longrightarrow> map fst vs' = map fst vs"
  by (induction vs arbitrary: vs') (auto split: if_splits)

lemma set_var_found:
  "find_var vs n = Some old \<Longrightarrow> map fst (set_var vs n x) = map fst vs"
proof -
  assume "find_var vs n = Some old"
  then obtain vs' where u: "update_var vs n x = Some vs'"
    using update_var_None [of vs n x] by (cases "update_var vs n x") auto
  then show ?thesis
    by (simp add: set_var_def update_var_names)
qed

lemma set_var_distinct:
  assumes "distinct (map fst vs)" "length n < MAX_NAME"
  shows "distinct (map fst (set_var vs n x))"
proof (cases "update_var vs n x")
  case None
  then have "n \<notin> fst ` set vs"
    by (simp add: update_var_None find_var_None_iff)
  with assms None show ?thesis
    by (simp add: set_var_def)
next
  case (Some vs')
  with assms show ?thesis
    by (simp add: set_var_def update_var_names)
qed

lemma operator_token_not_ID: "fst (operator_token c s) \<noteq> TOK_ID name"
  by (simp add: operator_token_def)

lemma next_token_ID_length: "cur (next_token p) = TOK_ID name \<Longrightarrow> length name < MAX_NAME"
  using operator_token_not_ID [of "peek (skip_ws (pos p))" "tl (skip_ws (pos p))" name]
  by (auto simp: next_token_def Let_def MAX_NAME_def split: if_splits option.splits prod.splits)

lemma evaluate_vars:
  assumes "evaluate M n input g = Inr (v, g')"
  shows "vars g' = vars g \<or> (\<exists>name. length name < MAX_NAME \<and> vars g' = set_var (vars g) name v)"
  using assms next_token_ID_length
  unfolding evaluate_def Let_def
  apply (auto split: Token.splits if_splits sum.splits prod.splits)
  apply blast
  done

lemma evaluate_distinct:
  "distinct (map fst (vars g)) \<Longrightarrow> evaluate M n input g = Inr (v, g')
   \<Longrightarrow> distinct (map fst (vars g'))"
  using evaluate_vars [of M n input g v g'] by (auto simp: set_var_distinct)

lemma print_result_vars: "print_result v g = Inr g' \<Longrightarrow> vars g' = vars g"
  by (auto simp: print_result_def split: if_splits OutputFormat.splits sum.splits)

lemma repl_line_distinct:
  assumes "distinct (map fst (vars g))" "repl_line M n line g = Inr g'"
  shows "distinct (map fst (vars g'))"
proof -
  from assms(2) obtain v g1 g2 where e: "evaluate M n line g = Inr (v, g1)"
    and p: "print_result v g1 = Inr g2" and g': "g' = g2\<lparr>vars := set_var (vars g2) ''ans'' v\<rparr>"
    by (auto simp: repl_line_def split: sum.splits)
  have "distinct (map fst (vars g2))"
    using evaluate_distinct [OF assms(1) e] print_result_vars [OF p] by simp
  then show ?thesis
    by (simp add: g' set_var_distinct MAX_NAME_def)
qed

lemma count_name:
  "distinct (map fst vs) \<Longrightarrow> find_var vs n = Some v \<Longrightarrow> length (filter (\<lambda>e. fst e = n) vs) = 1"
proof (induction vs)
  case Nil
  then show ?case by simp
next
  case (Cons a vs)
  obtain m y where a: "a = (m, y)" by (cases a)
  show ?case
  proof (cases "m = n")
    case True
    then have "n \<notin> fst ` set vs" using Cons.prems(1) a by auto
    then have "filter (\<lambda>e. fst e = n) vs = []"
      by (auto simp: filter_empty_conv)
    with True a show ?thesis by simp
  next
    case False
    with Cons a show ?thesis by simp
  qed
qed

lemma find_var_overwrite: "find_var vs n = Some old \<Longrightarrow> find_var (set_var vs n x) n = Some x"
proof -
  assume "find_var vs n = Some old"
  then obtain vs' where u: "update_var vs n x = Some vs'"
    using update_var_None [of vs n x] by (cases "update_var vs n x") auto
  then show ?thesis
    by (simp add: set_var_def find_var_update)
qed

lemma update_var_in_place:
  "update_var vs n x = Some vs' \<Longrightarrow> \<exists>i<length vs. fst (vs ! i) = n \<and> vs' = vs[i := (n, x)]"
proof (induction vs arbitrary: vs')
  case Nil
  then show ?case by simp
next
  case (Cons a vs)
  obtain m y where a: "a = (m, y)" by (cases a)
  show ?case
  proof (cases "m = n")
    case True
    with Cons.prems a have "fst ((a # vs) ! 0) = n \<and> vs' = (a # vs)[0 := (n, x)]"
      by simp
    then show ?thesis by blast
  next
    case False
    with Cons.prems a obtain ws where ws: "update_var vs n x = Some ws" and vs': "vs' = a # ws"
      by auto
    from Cons.IH [OF ws] obtain i where "i < length vs" "fst (vs ! i) = n" "ws = vs[i := (n, x)]"
      by blast
    with vs' have "Suc i < length (a # vs) \<and> fst ((a # vs) ! Suc i) = n
        \<and> vs' = (a # vs)[Suc i := (n, x)]"
      by simp
    then show ?thesis by blast
  qed
qed

lemma set_var_in_place:
  assumes "find_var vs n = Some old"
  shows "\<exists>i<length vs. fst (vs ! i) = n \<and> set_var vs n x = vs[i := (n, x)]"
proof -
  from assms obtain vs' where u: "update_var vs n x = Some vs'"
    using update_var_None [of vs n x] by (cases "update_var vs n x") auto
  from update_var_in_place [OF u] show ?thesis
    by (simp add: set_var_def u)
qed

text \<open>
  The claim C7 as stated fails on a full table in which \<^verbatim>\<open>x\<close> is not bound: \<^verbatim>\<open>x = 5\<close> returns 5
  and leaves the table as it is, so that \<^verbatim>\<open>x*2\<close> is the NaN sentinel and no entry is named
  \<^verbatim>\<open>x\<close>.
\<close>

theorem unique_names_counterexample:
  "length full_table = 64 \<and> distinct (map fst full_table)
   \<and> evaluate (\<lambda>name args. NaN) 20 ''x = 5''
        \<lparr>g_output_fmt = FMT_DEC, stderr = [], vars = full_table, stdout = []\<rparr>
      = Inr (Fin False 5, \<lparr>g_output_fmt = FMT_DEC, stderr = [], vars = full_table, stdout = []\<rparr>)
   \<and> evaluate (\<lambda>name args. NaN) 20 ''x*2''
        \<lparr>g_output_fmt = FMT_DEC, stderr = [], vars = full_table, stdout = []\<rparr>
      = Inr (NaN, \<lparr>g_output_fmt = FMT_DEC, stderr = [''undefined: x'' @ [newline]],
                   vars = full_table, stdout = []\<rparr>)
   \<and> length (filter (\<lambda>e. fst e = ''x'') full_table) = 0"
proof -
  have s: "set_var full_table ''x'' (Fin False 5) = full_table"
    using full_table_facts by (simp add: set_var_full MAX_VARS_def)
  have g: "get_var full_table ''x'' = (NaN, [''undefined: x'' @ [newline]])"
    using full_table_facts by (simp add: get_var_def)
  have a: "evaluate (\<lambda>name args. NaN) 20 ''x = 5''
        \<lparr>g_output_fmt = FMT_DEC, stderr = [], vars = full_table, stdout = []\<rparr>
      = Inr (Fin False 5, \<lparr>g_output_fmt = FMT_DEC, stderr = [], vars = full_table, stdout = []\<rparr>)"
    by (simp add: s lexer_eval double_eval parser_eval parse_numeral)
  have b: "evaluate (\<lambda>name args. NaN) 20 ''x*2''
        \<lparr>g_output_fmt = FMT_DEC, stderr = [], vars = full_table, stdout = []\<rparr>
      = Inr (NaN, \<lparr>g_output_fmt = FMT_DEC, stderr = [''undefined: x'' @ [newline]],
                   vars = full_table, stdout = []\<rparr>)"
    by (simp add: g lexer_eval double_eval parser_eval parse_numeral)
  have c: "length (filter (\<lambda>e. fst e = ''x'') full_table) = 0"
    by (simp add: full_table_def)
  show ?thesis
    using full_table_facts a b c by simp
qed

text \<open>
  C7, as the code has it. The names of the variable table stay unique: every evaluation,
  and every line of the interactive loop, takes a table with distinct names to one with
  distinct names. Assigning to a bound name overwrites the value of its entry in place and
  leaves every other entry as it is. \<^verbatim>\<open>x = 5\<close> returns 5 and passes the binding to \<^verbatim>\<open>set_var\<close>.
  From a table where \<^verbatim>\<open>x\<close> is bound or there is room, \<^verbatim>\<open>x*2\<close> then yields 10, and after \<^verbatim>\<open>x = 7\<close>
  the expression \<^verbatim>\<open>x\<close> yields 7, with exactly one entry named \<^verbatim>\<open>x\<close> when the names were
  distinct. From a full table where \<^verbatim>\<open>x\<close> is not bound the binding is dropped, and \<^verbatim>\<open>x*2\<close> yields
  the NaN sentinel.
\<close>

theorem unique_names:
  "(distinct (map fst (vars g)) \<and> evaluate M n input g = Inr (v, g') \<longrightarrow>
      distinct (map fst (vars g')))
   \<and> (distinct (map fst (vars g)) \<and> repl_line M m line g = Inr g'' \<longrightarrow>
      distinct (map fst (vars g'')))
   \<and> (find_var vs name = Some old \<longrightarrow>
        (\<exists>i<length vs. fst (vs ! i) = name \<and> set_var vs name y = vs[i := (name, y)])
      \<and> map fst (set_var vs name y) = map fst vs
      \<and> find_var (set_var vs name y) name = Some y)
   \<and> evaluate M (20 + k) ''x = 5'' g
        = Inr (Fin False 5, g\<lparr>g_output_fmt := FMT_DEC, vars := set_var (vars g) ''x'' (Fin False 5)\<rparr>)
   \<and> evaluate M (20 + k) ''x = 7'' (g\<lparr>vars := set_var (vars g) ''x'' (Fin False 5)\<rparr>)
        = Inr (Fin False 7, g\<lparr>g_output_fmt := FMT_DEC,
               vars := set_var (set_var (vars g) ''x'' (Fin False 5)) ''x'' (Fin False 7)\<rparr>)
   \<and> (find_var (vars g) ''x'' \<noteq> None \<or> length (vars g) < MAX_VARS \<longrightarrow>
        evaluate M (20 + k) ''x*2'' (g\<lparr>vars := set_var (vars g) ''x'' (Fin False 5)\<rparr>)
          = Inr (Fin False 10,
                 g\<lparr>g_output_fmt := FMT_DEC, vars := set_var (vars g) ''x'' (Fin False 5)\<rparr>)
      \<and> evaluate M (20 + k) ''x''
            (g\<lparr>vars := set_var (set_var (vars g) ''x'' (Fin False 5)) ''x'' (Fin False 7)\<rparr>)
          = Inr (Fin False 7, g\<lparr>g_output_fmt := FMT_DEC,
                 vars := set_var (set_var (vars g) ''x'' (Fin False 5)) ''x'' (Fin False 7)\<rparr>)
      \<and> (distinct (map fst (vars g)) \<longrightarrow>
            length (filter (\<lambda>e. fst e = ''x'')
              (set_var (set_var (vars g) ''x'' (Fin False 5)) ''x'' (Fin False 7))) = 1))
   \<and> (find_var (vars g) ''x'' = None \<and> MAX_VARS \<le> length (vars g) \<longrightarrow>
        set_var (vars g) ''x'' (Fin False 5) = vars g
      \<and> evaluate M (20 + k) ''x*2'' (g\<lparr>vars := set_var (vars g) ''x'' (Fin False 5)\<rparr>)
          = Inr (NaN, g\<lparr>g_output_fmt := FMT_DEC,
                         stderr := stderr g @ [''undefined: x'' @ [newline]],
                         vars := set_var (vars g) ''x'' (Fin False 5)\<rparr>))"
proof -
  let ?v5 = "set_var (vars g) ''x'' (Fin False 5)"
  let ?v7 = "set_var ?v5 ''x'' (Fin False 7)"
  have len: "length ''x'' < MAX_NAME"
    by (simp add: MAX_NAME_def)
  have "evaluate M 20 ''x = 5'' g
        = Inr (Fin False 5, g\<lparr>g_output_fmt := FMT_DEC, vars := ?v5\<rparr>)"
    by (simp add: lexer_eval double_eval parser_eval parse_numeral)
  note a = evaluate_mono [OF this, of k]
  have "evaluate M 20 ''x = 7'' (g\<lparr>vars := ?v5\<rparr>)
        = Inr (Fin False 7, g\<lparr>g_output_fmt := FMT_DEC, vars := ?v7\<rparr>)"
    by (simp add: lexer_eval double_eval parser_eval parse_numeral)
  note c = evaluate_mono [OF this, of k]
  have room: "evaluate M (20 + k) ''x*2'' (g\<lparr>vars := ?v5\<rparr>)
          = Inr (Fin False 10, g\<lparr>g_output_fmt := FMT_DEC, vars := ?v5\<rparr>)
      \<and> evaluate M (20 + k) ''x'' (g\<lparr>vars := ?v7\<rparr>)
          = Inr (Fin False 7, g\<lparr>g_output_fmt := FMT_DEC, vars := ?v7\<rparr>)
      \<and> (distinct (map fst (vars g)) \<longrightarrow> length (filter (\<lambda>e. fst e = ''x'') ?v7) = 1)"
    if r: "find_var (vars g) ''x'' \<noteq> None \<or> length (vars g) < MAX_VARS"
  proof -
    have f5: "find_var ?v5 ''x'' = Some (Fin False 5)"
      using len r by (rule find_var_set_var)
    have f7: "find_var ?v7 ''x'' = Some (Fin False 7)"
      using f5 by (rule find_var_overwrite)
    have "evaluate M 20 ''x*2'' (g\<lparr>vars := ?v5\<rparr>)
        = Inr (Fin False 10, g\<lparr>g_output_fmt := FMT_DEC, vars := ?v5\<rparr>)"
      by (simp add: get_var_found [OF f5] lexer_eval double_eval parser_eval parse_numeral)
    note b = evaluate_mono [OF this, of k]
    have "evaluate M 20 ''x'' (g\<lparr>vars := ?v7\<rparr>)
        = Inr (Fin False 7, g\<lparr>g_output_fmt := FMT_DEC, vars := ?v7\<rparr>)"
      by (simp add: get_var_found [OF f7] lexer_eval double_eval parser_eval parse_numeral)
    note d = evaluate_mono [OF this, of k]
    have "length (filter (\<lambda>e. fst e = ''x'') ?v7) = 1" if "distinct (map fst (vars g))"
    proof -
      have "distinct (map fst ?v7)"
        using that len by (simp add: set_var_distinct)
      then show ?thesis
        using f7 by (rule count_name)
    qed
    with b d show ?thesis
      by blast
  qed
  have full: "set_var (vars g) ''x'' (Fin False 5) = vars g
      \<and> evaluate M (20 + k) ''x*2'' (g\<lparr>vars := ?v5\<rparr>)
          = Inr (NaN, g\<lparr>g_output_fmt := FMT_DEC,
                         stderr := stderr g @ [''undefined: x'' @ [newline]], vars := ?v5\<rparr>)"
    if n: "find_var (vars g) ''x'' = None" "MAX_VARS \<le> length (vars g)"
  proof -
    have s: "?v5 = vars g"
      using n by (rule set_var_full)
    have u: "get_var (vars g) ''x'' = (NaN, [''undefined: x'' @ [newline]])"
      using n(1) by (simp add: get_var_def)
    have "evaluate M 20 ''x*2'' (g\<lparr>vars := ?v5\<rparr>)
          = Inr (NaN, g\<lparr>g_output_fmt := FMT_DEC,
                         stderr := stderr g @ [''undefined: x'' @ [newline]], vars := ?v5\<rparr>)"
      unfolding s by (simp add: u lexer_eval double_eval parser_eval parse_numeral)
    from evaluate_mono [OF this, of k] s show ?thesis
      by blast
  qed
  note inv = evaluate_distinct [of g M n input v g'] repl_line_distinct [of g M m line g'']
  note over = set_var_in_place [of vs name old y] set_var_found [of vs name old y]
    find_var_overwrite [of vs name old y]
  show ?thesis
    using inv over a c room full by blast
qed

theorem unique_names_witness:
  "distinct (map fst (vars \<lparr>g_output_fmt = FMT_DEC, stderr = [], vars = [], stdout = []\<rparr>))
   \<and> evaluate (\<lambda>name args. NaN) 20 ''y = 1'' \<lparr>g_output_fmt = FMT_DEC, stderr = [], vars = [], stdout = []\<rparr>
      = Inr (Fin False 1, \<lparr>g_output_fmt = FMT_DEC, stderr = [], vars = [(''y'', Fin False 1)], stdout = []\<rparr>)
   \<and> repl_line (\<lambda>name args. NaN) 20 ''3'' \<lparr>g_output_fmt = FMT_DEC, stderr = [], vars = [], stdout = []\<rparr>
      = Inr \<lparr>g_output_fmt = FMT_DEC, stderr = [], vars = [(''ans'', Fin False 3)], stdout = [''3'' @ [newline]]\<rparr>
   \<and> find_var [(''y'', Fin False 1), (''x'', Fin False 5)] ''x'' = Some (Fin False 5)
   \<and> length (vars \<lparr>g_output_fmt = FMT_DEC, stderr = [], vars = [], stdout = []\<rparr>) < MAX_VARS
   \<and> find_var full_table ''x'' = None \<and> MAX_VARS \<le> length full_table
   \<and> distinct (map fst [(''y'', Fin False 1)]) \<and> distinct (map fst [(''ans'', Fin False 3)])
   \<and> map fst (set_var [(''y'', Fin False 1), (''x'', Fin False 5)] ''x'' (Fin False 7)) = [''y'', ''x'']
   \<and> find_var (set_var [(''y'', Fin False 1), (''x'', Fin False 5)] ''x'' (Fin False 7)) ''x''
      = Some (Fin False 7)
   \<and> evaluate (\<lambda>name args. NaN) 20 ''x*2''
        \<lparr>g_output_fmt = FMT_DEC, stderr = [], vars = [(''x'', Fin False 5)], stdout = []\<rparr>
      = Inr (Fin False 10, \<lparr>g_output_fmt = FMT_DEC, stderr = [], vars = [(''x'', Fin False 5)], stdout = []\<rparr>)
   \<and> evaluate (\<lambda>name args. NaN) 20 ''x''
        \<lparr>g_output_fmt = FMT_DEC, stderr = [], vars = [(''x'', Fin False 7)], stdout = []\<rparr>
      = Inr (Fin False 7, \<lparr>g_output_fmt = FMT_DEC, stderr = [], vars = [(''x'', Fin False 7)], stdout = []\<rparr>)
   \<and> length (filter (\<lambda>e. fst e = ''x'') [(''x'', Fin False 7)]) = 1
   \<and> evaluate (\<lambda>name args. NaN) 20 ''x*2''
        \<lparr>g_output_fmt = FMT_DEC, stderr = [], vars = full_table, stdout = []\<rparr>
      = Inr (NaN, \<lparr>g_output_fmt = FMT_DEC, stderr = [''undefined: x'' @ [newline]],
                   vars = full_table, stdout = []\<rparr>)"
proof -
  let ?g = "\<lparr>g_output_fmt = FMT_DEC, stderr = [], vars = [], stdout = []\<rparr>"
  let ?f = "\<lparr>g_output_fmt = FMT_DEC, stderr = [], vars = full_table, stdout = []\<rparr>"
  let ?g' = "\<lparr>g_output_fmt = FMT_DEC, stderr = [], vars = [(''y'', Fin False 1)], stdout = []\<rparr>"
  let ?g'' = "\<lparr>g_output_fmt = FMT_DEC, stderr = [], vars = [(''ans'', Fin False 3)],
    stdout = [''3'' @ [newline]]\<rparr>"
  let ?M = "\<lambda>name args. NaN"
  let ?vs = "[(''y'', Fin False 1), (''x'', Fin False 5)]"
  have h: "distinct (map fst (vars ?g))"
    "evaluate ?M 20 ''y = 1'' ?g = Inr (Fin False 1, ?g')"
    "repl_line ?M 20 ''3'' ?g = Inr ?g''"
    "find_var ?vs ''x'' = Some (Fin False 5)"
    by (simp_all add: set_var_def print_eval lexer_eval double_eval parser_eval parse_numeral)
  have r: "length (vars ?g) < MAX_VARS" "find_var (vars ?f) ''x'' = None"
    "MAX_VARS \<le> length (vars ?f)"
    using full_table_facts by (simp_all add: MAX_VARS_def)
  have s: "set_var [] ''x'' (Fin False 5) = [(''x'', Fin False 5)]"
    "set_var [(''x'', Fin False 5)] ''x'' (Fin False 7) = [(''x'', Fin False 7)]"
    by (simp_all add: set_var_def MAX_VARS_def MAX_NAME_def)
  have sf: "set_var full_table ''x'' (Fin False 5) = full_table"
    using full_table_facts by (simp add: set_var_full MAX_VARS_def)
  note t = unique_names [where g = ?g and M = ?M and n = 20 and input = "''y = 1''"
      and v = "Fin False 1" and g' = ?g' and m = 20 and line = "''3''" and g'' = ?g''
      and vs = ?vs and name = "''x''" and old = "Fin False 5" and y = "Fin False 7" and k = 0]
    unique_names [where g = ?f and M = ?M and n = 20 and input = "''y = 1''"
      and v = "Fin False 1" and g' = ?g' and m = 20 and line = "''3''" and g'' = ?g''
      and vs = ?vs and name = "''x''" and old = "Fin False 5" and y = "Fin False 7" and k = 0]
  show ?thesis
    using h r t by (simp add: s sf)
qed

section \<open>Assignment of the sentinel\<close>

lemma isspace_not_NUL: "isspace c \<Longrightarrow> c \<noteq> NUL"
  by (auto simp: isspace_def code_def NUL_def)

lemma next_token_assign:
  assumes "list_all isspace ws"
  shows "next_token \<lparr>g_output_fmt = f, stderr = e, pos = ws @ CHR ''='' # rhs, cur = c\<rparr>
       = \<lparr>g_output_fmt = f, stderr = e, pos = rhs, cur = TOK_OP (CHR ''='')\<rparr>"
proof -
  have "\<not> isspace (CHR ''='')"
    by (simp add: isspace_def code_def)
  then have ws: "skip_ws (ws @ CHR ''='' # rhs) = CHR ''='' # rhs"
    unfolding skip_ws_def using assms by (intro dropWhile_run) auto
  show ?thesis
    by (simp add: next_token_def ws Let_def NUL_def parse_number_def parse_number_decimal_def
        isdigit_def isalpha_def code_def operator_token_def)
qed

text \<open>
  The claim C10 as stated fails when the table is full and the name is new: the sentinel is
  returned, but \<^verbatim>\<open>set_var\<close> drops the binding.
\<close>

theorem assignment_of_nan_counterexample:
  "length full_table = 64 \<and> distinct (map fst full_table)
   \<and> evaluate (\<lambda>name args. NaN) 20 ''x = y''
        \<lparr>g_output_fmt = FMT_DEC, stderr = [], vars = full_table, stdout = []\<rparr>
      = Inr (NaN, \<lparr>g_output_fmt = FMT_DEC, stderr = [''undefined: y'' @ [newline]],
                   vars = full_table, stdout = []\<rparr>)
   \<and> find_var full_table ''x'' = None"
proof -
  have u: "undefined_name full_table ''y''"
    using full_table_facts by (simp add: undefined_name_def builtin_names_def)
  have s: "set_var full_table ''x'' NaN = full_table"
    using full_table_facts update_var_None [of full_table "''x''" NaN]
    by (simp add: set_var_def MAX_VARS_def)
  have "evaluate (\<lambda>name args. NaN) 20 ''x = y''
        \<lparr>g_output_fmt = FMT_DEC, stderr = [], vars = full_table, stdout = []\<rparr>
      = Inr (NaN, \<lparr>g_output_fmt = FMT_DEC, stderr = [''undefined: y'' @ [newline]],
                   vars = full_table, stdout = []\<rparr>)"
    by (simp add: get_var_undefined [OF u] s lexer_eval double_eval parser_eval parse_numeral)
  then show ?thesis
    using full_table_facts by simp
qed

text \<open>
  C10, as the code has it. An assignment stores whatever the right-hand side evaluates to:
  for every identifier \<open>name\<close>, followed by optional white space, \<^verbatim>\<open>=\<close> and a right-hand
  side that evaluates to the NaN sentinel, the evaluation returns the sentinel and passes
  the binding to \<^verbatim>\<open>set_var\<close>. When the name is already bound or the table has room, the name
  is bound to the sentinel afterwards; when the name is new and the table is full, the
  table stays as it is.
\<close>

theorem assignment_of_nan:
  assumes "valid_ident name" "list_all isspace ws" "NUL \<notin> set rhs"
    and "parse_expr M (vars g) n
           (next_token \<lparr>g_output_fmt = FMT_DEC, stderr = stderr g, pos = rhs, cur = TOK_OP (CHR ''='')\<rparr>)
         = Inr (v, p2)"
    and "isnan v"
  shows "evaluate M n (name @ ws @ CHR ''='' # rhs) g
       = Inr (NaN, g\<lparr>g_output_fmt := g_output_fmt p2, stderr := stderr p2,
                      vars := set_var (vars g) name NaN\<rparr>)
       \<and> (find_var (vars g) name \<noteq> None \<or> length (vars g) < MAX_VARS \<longrightarrow>
            find_var (set_var (vars g) name NaN) name = Some NaN)
       \<and> (find_var (vars g) name = None \<and> MAX_VARS \<le> length (vars g) \<longrightarrow>
            set_var (vars g) name NaN = vars g)"
proof -
  have v: "v = NaN"
    using assms(5) by (cases v) simp_all
  have all: "list_all is_ident_char name" and len: "length name < MAX_NAME"
    using assms(1) by (simp_all add: valid_ident_def)
  have nonul: "NUL \<notin> set (ws @ CHR ''='' # rhs)"
    using assms(2,3) isspace_not_NUL by (auto simp: list_all_iff NUL_def)
  have cs: "cstring (name @ ws @ CHR ''='' # rhs) = name @ ws @ CHR ''='' # rhs"
    by (simp add: cstring_ident [OF all] cstring_no_NUL [OF nonul])
  have nid: "\<not> is_ident_char (peek (ws @ CHR ''='' # rhs))"
    using assms(2) by (cases ws) (auto simp: is_ident_char_def isalnum_def isalpha_def isdigit_def
        isspace_def code_def)
  have t1: "next_token \<lparr>g_output_fmt = FMT_DEC, stderr = stderr g,
                pos = name @ ws @ CHR ''='' # rhs, cur = TOK_NUM (Fin False 0)\<rparr>
          = \<lparr>g_output_fmt = FMT_DEC, stderr = stderr g, pos = ws @ CHR ''='' # rhs, cur = TOK_ID name\<rparr>"
    using assms(1) nid by (rule next_token_ident)
  have t2: "next_token \<lparr>g_output_fmt = FMT_DEC, stderr = stderr g, pos = ws @ CHR ''='' # rhs, cur = TOK_ID name\<rparr>
          = \<lparr>g_output_fmt = FMT_DEC, stderr = stderr g, pos = rhs, cur = TOK_OP (CHR ''='')\<rparr>"
    using assms(2) by (rule next_token_assign)
  have "evaluate M n (name @ ws @ CHR ''='' # rhs) g
       = Inr (NaN, g\<lparr>g_output_fmt := g_output_fmt p2, stderr := stderr p2,
                      vars := set_var (vars g) name NaN\<rparr>)"
    unfolding evaluate_def cs Let_def t1
    by (simp add: t2 assms(4) v)
  then show ?thesis
    using find_var_set_var [OF len, of "vars g" NaN] set_var_full [of "vars g" name NaN]
    by blast
qed

theorem assignment_of_nan_witness:
  "valid_ident ''x'' \<and> list_all isspace '' '' \<and> NUL \<notin> set '' y''
   \<and> parse_expr (\<lambda>name args. NaN) [] 20
         (next_token \<lparr>g_output_fmt = FMT_DEC, stderr = [], pos = '' y'', cur = TOK_OP (CHR ''='')\<rparr>)
       = Inr (NaN, \<lparr>g_output_fmt = FMT_DEC, stderr = [''undefined: y'' @ [newline]], pos = [], cur = TOK_END\<rparr>)
   \<and> parse_expr (\<lambda>name args. NaN) full_table 20
         (next_token \<lparr>g_output_fmt = FMT_DEC, stderr = [], pos = '' y'', cur = TOK_OP (CHR ''='')\<rparr>)
       = Inr (NaN, \<lparr>g_output_fmt = FMT_DEC, stderr = [''undefined: y'' @ [newline]], pos = [], cur = TOK_END\<rparr>)
   \<and> isnan NaN
   \<and> length (vars \<lparr>g_output_fmt = FMT_HEX, stderr = [], vars = [], stdout = []\<rparr>) < MAX_VARS
   \<and> find_var full_table ''x'' = None \<and> MAX_VARS \<le> length full_table
   \<and> evaluate (\<lambda>name args. NaN) 20 ''x = y'' \<lparr>g_output_fmt = FMT_HEX, stderr = [], vars = [], stdout = []\<rparr>
       = Inr (NaN, \<lparr>g_output_fmt = FMT_DEC, stderr = [''undefined: y'' @ [newline]],
                    vars = [(''x'', NaN)], stdout = []\<rparr>)
   \<and> find_var [(''x'', NaN)] ''x'' = Some NaN
   \<and> evaluate (\<lambda>name args. NaN) 20 ''x = y''
        \<lparr>g_output_fmt = FMT_HEX, stderr = [], vars = full_table, stdout = []\<rparr>
       = Inr (NaN, \<lparr>g_output_fmt = FMT_DEC, stderr = [''undefined: y'' @ [newline]],
                    vars = full_table, stdout = []\<rparr>)"
proof -
  let ?g = "\<lparr>g_output_fmt = FMT_HEX, stderr = [], vars = [], stdout = []\<rparr>"
  let ?f = "\<lparr>g_output_fmt = FMT_HEX, stderr = [], vars = full_table, stdout = []\<rparr>"
  let ?p2 = "\<lparr>g_output_fmt = FMT_DEC, stderr = [''undefined: y'' @ [newline]], pos = [], cur = TOK_END\<rparr>"
  let ?M = "\<lambda>name args. NaN"
  have u: "get_var full_table ''y'' = (NaN, [''undefined: y'' @ [newline]])"
    using full_table_facts by (simp add: get_var_def)
  have h: "valid_ident ''x''" "list_all isspace '' ''" "NUL \<notin> set '' y''"
    by (simp_all add: valid_ident_def lexer_eval)
  have pg: "parse_expr ?M (vars ?g) 20
         (next_token \<lparr>g_output_fmt = FMT_DEC, stderr = stderr ?g, pos = '' y'', cur = TOK_OP (CHR ''='')\<rparr>)
       = Inr (NaN, ?p2)"
    by (simp add: get_var_def lexer_eval double_eval parser_eval parse_numeral)
  have pf: "parse_expr ?M (vars ?f) 20
         (next_token \<lparr>g_output_fmt = FMT_DEC, stderr = stderr ?f, pos = '' y'', cur = TOK_OP (CHR ''='')\<rparr>)
       = Inr (NaN, ?p2)"
    by (simp add: u lexer_eval double_eval parser_eval parse_numeral)
  have n: "isnan NaN"
    by simp
  have r: "length (vars ?g) < MAX_VARS" "find_var (vars ?f) ''x'' = None"
    "MAX_VARS \<le> length (vars ?f)"
    using full_table_facts by (simp_all add: MAX_VARS_def)
  have s: "set_var [] ''x'' NaN = [(''x'', NaN)]"
    by (simp add: set_var_def MAX_VARS_def MAX_NAME_def)
  show ?thesis
    using h pg pf r assignment_of_nan [OF h pg n] assignment_of_nan [OF h pf n]
    by (simp add: s)
qed

end
